theory Spec2Isabelle
  imports Main "HOL-Library.Word"
begin

section \<open>The node-list sidecar: data model\<close>

text \<open>
  The repository holds two programs, each a \<open>package main\<close> of its own:
  \<^item> \<open>main.go\<close>, the variant whose resolver falls back to listing pods; its
    functions are modelled under the names \<open>fallback_getNodes\<close> and \<open>fallback_main\<close>;
  \<^item> the second file, the variant with bootstrap seeding and a self entry; its
    functions are \<open>bootstrap_getNodes\<close>, \<open>getCurrentIP\<close> and \<open>bootstrap_main\<close>.

  The package-level variables set by the flags are one record. \<open>apiPort\<close> and
  \<open>peerPort\<close> are Go \<open>int\<close>s; the programs only print them, so they are
  integers here. The second file declares no \<open>appSelector\<close> and never reads it.
\<close>

record config =
  appSelector :: string
  namespace :: string
  nodesFile :: string
  service :: string
  apiPort :: int
  peerPort :: int

definition default_config :: config where
  "default_config =
     \<lparr> appSelector = ''app.kubernetes.io/name=typesense'',
       namespace = ''typesense'',
       nodesFile = ''/usr/share/typesense/nodes'',
       service = ''ts'',
       apiPort = 8108,
       peerPort = 8107 \<rparr>"

text \<open>What the orchestration API returns, reduced to the fields the code reads
  (and the ones it passes over: the not-ready addresses of a subset, the readiness
  of a pod).\<close>

record EndpointAddress =
  IP :: string

record EndpointSubset =
  Addresses :: "EndpointAddress list"
  NotReadyAddresses :: "EndpointAddress list"

record Endpoints =
  Name :: string
  Subsets :: "EndpointSubset list"

record Pod =
  PodIP :: string
  PodReady :: bool

subsection \<open>Formatting: \<open>%d\<close>, \<open>Sprintf("%s:%d:%d")\<close>, \<open>strings.Join\<close>\<close>

definition digit_char :: "nat \<Rightarrow> char" where
  "digit_char d = ''0123456789'' ! d"

fun show_nat :: "nat \<Rightarrow> string" where
  "show_nat n = (if n < 10 then [digit_char n] else show_nat (n div 10) @ [digit_char (n mod 10)])"

declare show_nat.simps [simp del]

definition show_int :: "int \<Rightarrow> string" where
  "show_int i = (if i < 0 then CHR ''-'' # show_nat (nat (- i)) else show_nat (nat i))"

text \<open>\<open>fmt.Sprintf("%s:%d:%d", ip, p, q)\<close>: a plain substitution.\<close>

definition Sprintf_node :: "string \<Rightarrow> int \<Rightarrow> int \<Rightarrow> string" where
  "Sprintf_node ip p q = ip @ '':'' @ show_int p @ '':'' @ show_int q"

fun strings_Join :: "string list \<Rightarrow> string \<Rightarrow> string" where
  "strings_Join [] sep = []"
| "strings_Join [x] sep = x"
| "strings_Join (x # y # ys) sep = x @ sep @ strings_Join (y # ys) sep"

subsection \<open>The world the program acts on\<close>

text \<open>
  Every effect is recorded in order in \<open>trace\<close>: a log line, a call of the
  client library (recorded when it is made, with the handle it is made on), a call
  of \<open>os.WriteFile\<close>. \<open>files\<close> is the file system, a map from paths to contents.
\<close>

text \<open>The handles of the client library. A Go pointer or interface that may be
  \<open>nil\<close> is an \<open>option\<close> of one of them.\<close>

datatype rest_config = Rest_Config
datatype clientset = Clientset
datatype watcher = Watcher

datatype action =
    Logged string
  | Listed_Endpoints string
  | Listed_Pods string string
  | Wrote_File string string
  | Called_NewForConfig "rest_config option"
  | Called_Watch "clientset option" string
  | Called_ResultChan "watcher option"

record world =
  trace :: "action list"
  files :: "string \<rightharpoonup> string"

definition log_Printf :: "string \<Rightarrow> world \<Rightarrow> world" where
  "log_Printf msg w = w\<lparr>trace := trace w @ [Logged msg]\<rparr>"

definition record_call :: "action \<Rightarrow> world \<Rightarrow> world" where
  "record_call a w = w\<lparr>trace := trace w @ [a]\<rparr>"

text \<open>
  \<open>os.WriteFile\<close> opens the file with truncation and then writes. What a call
  does is the environment's choice: it succeeds, or it fails with a message and
  leaves the file untouched (\<open>None\<close>, the open failed) or with some other content
  (\<open>Some s\<close>, the write failed after the truncation).
\<close>

datatype write_outcome = Write_Ok | Write_Err string "string option"

definition os_WriteFile :: "write_outcome \<Rightarrow> string \<Rightarrow> string \<Rightarrow> world \<Rightarrow> string option \<times> world" where
  "os_WriteFile out name data w =
     (let w' = record_call (Wrote_File name data) w in
      case out of
        Write_Ok \<Rightarrow> (None, w'\<lparr>files := (files w')(name \<mapsto> data)\<rparr>)
      | Write_Err e left \<Rightarrow>
          (Some e, case left of None \<Rightarrow> w' | Some s \<Rightarrow> w'\<lparr>files := (files w')(name \<mapsto> s)\<rparr>))"

text \<open>What the environment answers during one pass of the watch loop: the
  endpoints listing, the pod listing, and the outcome of a write.\<close>

record cycle =
  endpoints_list :: "string + Endpoints list"
  pods_list :: "string + Pod list"
  write_file :: write_outcome

definition nl :: string where
  "nl = [CHR 0x0A]"

section \<open>The membership resolver\<close>

text \<open>The three nested loops over items, subsets and addresses, each appending
  to \<open>nodes\<close>.\<close>

definition address_loop :: "config \<Rightarrow> string list \<Rightarrow> EndpointAddress list \<Rightarrow> string list" where
  "address_loop c nodes as =
     foldl (\<lambda>ns a. ns @ [Sprintf_node (IP a) (peerPort c) (apiPort c)]) nodes as"

definition subset_loop :: "config \<Rightarrow> string list \<Rightarrow> EndpointSubset list \<Rightarrow> string list" where
  "subset_loop c nodes ss = foldl (\<lambda>ns s. address_loop c ns (Addresses s)) nodes ss"

definition items_loop :: "config \<Rightarrow> string list \<Rightarrow> Endpoints list \<Rightarrow> string list" where
  "items_loop c nodes es =
     foldl (\<lambda>ns e. if Name e \<noteq> service c then ns else subset_loop c ns (Subsets e)) nodes es"

definition pods_loop :: "config \<Rightarrow> string list \<Rightarrow> Pod list \<Rightarrow> string list" where
  "pods_loop c nodes ps =
     foldl (\<lambda>ns pod. ns @ [Sprintf_node (PodIP pod) (peerPort c) (apiPort c)]) nodes ps"

text \<open>\<open>getNodes\<close> of the second file.\<close>

definition bootstrap_getNodes :: "config \<Rightarrow> cycle \<Rightarrow> world \<Rightarrow> string \<times> world" where
  "bootstrap_getNodes c cy w =
     (let w1 = record_call (Listed_Endpoints (namespace c)) w in
      case endpoints_list cy of
        Inl err \<Rightarrow> ([], log_Printf (''failed to list endpoints: '' @ err @ nl) w1)
      | Inr items \<Rightarrow> (strings_Join (items_loop c [] items) '','', w1))"

text \<open>\<open>getNodes\<close> of \<open>main.go\<close>, with the fall-back to the pods' addresses.\<close>

definition fallback_getNodes :: "config \<Rightarrow> cycle \<Rightarrow> world \<Rightarrow> string \<times> world" where
  "fallback_getNodes c cy w =
     (let w1 = record_call (Listed_Endpoints (namespace c)) w in
      case endpoints_list cy of
        Inl err \<Rightarrow> ([], log_Printf (''failed to list endpoints: '' @ err @ nl) w1)
      | Inr items \<Rightarrow>
          (let nodes = items_loop c [] items in
           if length nodes = 0 then
             (let w2 = record_call (Listed_Pods (namespace c) (appSelector c)) w1 in
              case pods_list cy of
                Inl err \<Rightarrow> ([], log_Printf (''failed to list pods: '' @ err @ nl) w2)
              | Inr pods \<Rightarrow> (strings_Join (pods_loop c nodes pods) '','', w2))
           else (strings_Join nodes '','', w1)))"

section \<open>The self-identity resolver\<close>

text \<open>
  \<open>net.IP\<close> is a byte slice. \<open>To4\<close>, \<open>IsLoopback\<close> and \<open>String\<close> follow Go's
  \<open>net\<close> package: a 4-byte address is IPv4, a 16-byte address with the prefix
  \<open>0:0:0:0:0:ffff\<close> is IPv4 in its last four bytes, and nothing else is.
  \<open>getCurrentIP\<close> calls \<open>String\<close> only on an address whose \<open>To4\<close> is not \<open>nil\<close>,
  where it prints the four bytes in dotted decimal; \<open>IP_String4\<close> is that branch.
\<close>

type_synonym IP = "8 word list"

definition To4 :: "IP \<Rightarrow> IP option" where
  "To4 ip =
     (if length ip = 4 then Some ip
      else if length ip = 16 \<and> list_all (\<lambda>b. b = 0) (take 10 ip) \<and> ip ! 10 = 0xff \<and> ip ! 11 = 0xff
        then Some (drop 12 ip)
      else None)"

definition IPv6loopback :: IP where
  "IPv6loopback = [0, 0, 0, 0, 0, 0, 0, 0, 0, 0, 0, 0, 0, 0, 0, 1]"

definition IsLoopback :: "IP \<Rightarrow> bool" where
  "IsLoopback ip = (case To4 ip of Some ip4 \<Rightarrow> ip4 ! 0 = 127 | None \<Rightarrow> ip = IPv6loopback)"

definition IP_String4 :: "IP \<Rightarrow> string" where
  "IP_String4 ip4 =
     show_nat (unat (ip4 ! 0)) @ ''.'' @ show_nat (unat (ip4 ! 1)) @ ''.'' @
     show_nat (unat (ip4 ! 2)) @ ''.'' @ show_nat (unat (ip4 ! 3))"

text \<open>An interface address: an \<open>*net.IPNet\<close> (address and mask) or a value of
  another type, on which the type assertion of the loop fails.\<close>

datatype Addr = IPNet IP IP | Other_Addr string

text \<open>The loop of \<open>getCurrentIP\<close>: the first address that is an \<open>*net.IPNet\<close>,
  not loopback and IPv4 is returned as a string; \<open>""\<close> when the loop ends.\<close>

fun first_ipv4 :: "Addr list \<Rightarrow> string" where
  "first_ipv4 [] = []"
| "first_ipv4 (Other_Addr s # addrs) = first_ipv4 addrs"
| "first_ipv4 (IPNet ip m # addrs) =
     (if \<not> IsLoopback ip then
        (case To4 ip of Some ip4 \<Rightarrow> IP_String4 ip4 | None \<Rightarrow> first_ipv4 addrs)
      else first_ipv4 addrs)"

text \<open>How a run ends: \<open>main\<close> returns (the notification channel was closed),
  \<open>log.Fatalf\<close> exits the process, or a \<open>nil\<close> handle is used and the run panics.\<close>

datatype ending = Returned | Fatal | Panicked

definition getCurrentIP :: "string + Addr list \<Rightarrow> world \<Rightarrow> (ending + string) \<times> world" where
  "getCurrentIP interface_addrs w =
     (case interface_addrs of
        Inl err \<Rightarrow> (Inl Fatal, log_Printf (''error resolving local addresses: '' @ err @ nl) w)
      | Inr addrs \<Rightarrow> (Inr (first_ipv4 addrs), w))"

section \<open>The reconciliation loops\<close>

text \<open>What the environment answers at startup, and the notifications that then
  arrive on the watcher's channel until it is closed, each with the answers of its
  pass. \<open>kubeconfig_missing\<close> is the test \<open>errors.Is(err, os.ErrNotExist)\<close> on
  \<open>os.Stat(configPath)\<close>; \<open>LookupEnv\<close> is the variable \<open>INITIAL_NODELIST\<close>.\<close>

record startup =
  kubeconfig_missing :: bool
  InClusterConfig :: "string + rest_config"
  BuildConfigFromFlags :: "string + rest_config"
  NewForConfig :: "string + clientset"
  Watch :: "string + watcher"
  LookupEnv :: "string option"
  InterfaceAddrs :: "string + Addr list"
  bootstrap_write :: write_outcome
  notifications :: "cycle list"

subsection \<open>The second file: bootstrap seeding and the self entry\<close>

definition bootstrap_cycle :: "config \<Rightarrow> string \<Rightarrow> cycle \<Rightarrow> world \<Rightarrow> world" where
  "bootstrap_cycle c thisNode cy w =
     (case bootstrap_getNodes c cy w of (nodes, w1) \<Rightarrow>
        if length nodes > 0 then
          (let flattenedNodes = strings_Join [nodes, thisNode] '','';
               w2 = log_Printf (''found nodes (and added self): '' @ flattenedNodes @ nl) w1
           in case os_WriteFile (write_file cy) (nodesFile c) flattenedNodes w2 of
                (None, w3) \<Rightarrow> w3
              | (Some err, w3) \<Rightarrow> log_Printf (''failed to write nodes file: '' @ err @ nl) w3)
        else w1)"

fun bootstrap_loop :: "config \<Rightarrow> string \<Rightarrow> cycle list \<Rightarrow> world \<Rightarrow> world" where
  "bootstrap_loop c thisNode [] w = w"
| "bootstrap_loop c thisNode (cy # cys) w =
     bootstrap_loop c thisNode cys (bootstrap_cycle c thisNode cy w)"

text \<open>Building the configuration, as the second file does it: each failure is
  \<open>log.Fatalf\<close>.\<close>

definition bootstrap_config :: "startup \<Rightarrow> world \<Rightarrow> (ending + rest_config) \<times> world" where
  "bootstrap_config env w =
     (if kubeconfig_missing env then
        (case InClusterConfig env of
           Inl err \<Rightarrow> (Inl Fatal, log_Printf (''failed to build local config: '' @ err @ nl) w)
         | Inr cfg \<Rightarrow> (Inr cfg, w))
      else
        (case BuildConfigFromFlags env of
           Inl err \<Rightarrow> (Inl Fatal, log_Printf (''failed to build in-cluster config: '' @ err @ nl) w)
         | Inr cfg \<Rightarrow> (Inr cfg, w)))"

text \<open>From the client to the subscription.\<close>

definition bootstrap_connect :: "config \<Rightarrow> startup \<Rightarrow> world \<Rightarrow> (ending + clientset \<times> watcher) \<times> world" where
  "bootstrap_connect c env w =
     (case bootstrap_config env w of
        (Inl e, w1) \<Rightarrow> (Inl e, w1)
      | (Inr cfg, w1) \<Rightarrow>
          (let w2 = record_call (Called_NewForConfig (Some cfg)) w1 in
           case NewForConfig env of
             Inl err \<Rightarrow> (Inl Fatal, log_Printf (''failed to create kubernetes client: '' @ err @ nl) w2)
           | Inr clients \<Rightarrow>
               (let w3 = record_call (Called_Watch (Some clients) (namespace c)) w2 in
                case Watch env of
                  Inl err \<Rightarrow> (Inl Fatal, log_Printf (''failed to create endpoints watcher: '' @ err @ nl) w3)
                | Inr watcher \<Rightarrow> (Inr (clients, watcher), w3))))"

text \<open>The self entry and the bootstrap write. The result is \<open>thisNode\<close>.\<close>

definition bootstrap_seed :: "config \<Rightarrow> startup \<Rightarrow> world \<Rightarrow> (ending + string) \<times> world" where
  "bootstrap_seed c env w =
     (case getCurrentIP (InterfaceAddrs env) w of
        (Inl e, w1) \<Rightarrow> (Inl e, w1)
      | (Inr ip, w1) \<Rightarrow>
          (let thisNode = Sprintf_node ip 8107 8108 in
           case LookupEnv env of
             None \<Rightarrow> (Inr thisNode, w1)
           | Some initialNodes \<Rightarrow>
               (let flattenedNodes = strings_Join [initialNodes, thisNode] '','';
                    w2 = log_Printf (''Bootstrapping cluster with initial node list: '' @ flattenedNodes) w1
                in case os_WriteFile (bootstrap_write env) (nodesFile c) flattenedNodes w2 of
                     (None, w3) \<Rightarrow> (Inr thisNode, w3)
                   | (Some err, w3) \<Rightarrow>
                       (Inl Fatal, log_Printf (''failed to write node list: '' @ err @ nl) w3))))"

text \<open>Everything before the watch loop.\<close>

definition bootstrap_startup :: "config \<Rightarrow> startup \<Rightarrow> world \<Rightarrow> (ending + string) \<times> world" where
  "bootstrap_startup c env w =
     (case bootstrap_connect c env w of
        (Inl e, w1) \<Rightarrow> (Inl e, w1)
      | (Inr (clients, watcher), w1) \<Rightarrow> bootstrap_seed c env w1)"

definition bootstrap_main :: "config \<Rightarrow> startup \<Rightarrow> world \<Rightarrow> ending \<times> world" where
  "bootstrap_main c env w =
     (case bootstrap_startup c env w of
        (Inl e, w1) \<Rightarrow> (e, w1)
      | (Inr thisNode, w1) \<Rightarrow>
          (Returned, bootstrap_loop c thisNode (notifications env)
                       (record_call (Called_ResultChan (Some Watcher)) w1)))"

subsection \<open>\<open>main.go\<close>: every startup failure is \<open>log.Printf\<close>\<close>

text \<open>
  After a failure the handle is \<open>nil\<close> and the program goes on to the next
  statement, which uses it. The client library reads through the handle it is
  given (\<open>NewForConfig\<close> copies \<open>*c\<close>, \<open>CoreV1\<close> reads a field of the client set),
  and a method call on a \<open>nil\<close> interface panics: the use of a \<open>nil\<close> handle is
  recorded in the trace and ends the run with \<open>Panicked\<close>.
\<close>

definition fallback_cycle :: "config \<Rightarrow> cycle \<Rightarrow> world \<Rightarrow> world" where
  "fallback_cycle c cy w =
     (case fallback_getNodes c cy w of (nodes, w1) \<Rightarrow>
        (case os_WriteFile (write_file cy) (nodesFile c) nodes w1 of
           (None, w2) \<Rightarrow> w2
         | (Some err, w2) \<Rightarrow> log_Printf (''failed to write nodes file: '' @ err @ nl) w2))"

fun fallback_loop :: "config \<Rightarrow> cycle list \<Rightarrow> world \<Rightarrow> world" where
  "fallback_loop c [] w = w"
| "fallback_loop c (cy # cys) w = fallback_loop c cys (fallback_cycle c cy w)"

definition fallback_config :: "startup \<Rightarrow> world \<Rightarrow> rest_config option \<times> world" where
  "fallback_config env w =
     (if kubeconfig_missing env then
        (case InClusterConfig env of
           Inl err \<Rightarrow> (None, log_Printf (''failed to build local config: '' @ err @ nl) w)
         | Inr cfg \<Rightarrow> (Some cfg, w))
      else
        (case BuildConfigFromFlags env of
           Inl err \<Rightarrow> (None, log_Printf (''failed to build in-cluster config: '' @ err @ nl) w)
         | Inr cfg \<Rightarrow> (Some cfg, w)))"

definition fallback_clients :: "startup \<Rightarrow> rest_config option \<Rightarrow> world \<Rightarrow> (ending + clientset option) \<times> world" where
  "fallback_clients env config w =
     (let w1 = record_call (Called_NewForConfig config) w in
      case config of
        None \<Rightarrow> (Inl Panicked, w1)
      | Some cfg \<Rightarrow>
          (case NewForConfig env of
             Inl err \<Rightarrow> (Inr None, log_Printf (''failed to create kubernetes client: '' @ err @ nl) w1)
           | Inr clients \<Rightarrow> (Inr (Some clients), w1)))"

definition fallback_watcher :: "config \<Rightarrow> startup \<Rightarrow> clientset option \<Rightarrow> world \<Rightarrow> (ending + watcher option) \<times> world" where
  "fallback_watcher c env clients w =
     (let w1 = record_call (Called_Watch clients (namespace c)) w in
      case clients of
        None \<Rightarrow> (Inl Panicked, w1)
      | Some cl \<Rightarrow>
          (case Watch env of
             Inl err \<Rightarrow> (Inr None, log_Printf (''failed to create endpoints watcher: '' @ err @ nl) w1)
           | Inr watcher \<Rightarrow> (Inr (Some watcher), w1)))"

definition fallback_main :: "config \<Rightarrow> startup \<Rightarrow> world \<Rightarrow> ending \<times> world" where
  "fallback_main c env w =
     (case fallback_config env w of (config, w1) \<Rightarrow>
        (case fallback_clients env config w1 of
           (Inl e, w2) \<Rightarrow> (e, w2)
         | (Inr clients, w2) \<Rightarrow>
             (case fallback_watcher c env clients w2 of
                (Inl e, w3) \<Rightarrow> (e, w3)
              | (Inr watcher, w3) \<Rightarrow>
                  (let w4 = record_call (Called_ResultChan watcher) w3 in
                   case watcher of
                     None \<Rightarrow> (Panicked, w4)
                   | Some wt \<Rightarrow> (Returned, fallback_loop c (notifications env) w4)))))"

section \<open>Vocabulary of the properties\<close>

text \<open>The addresses the endpoint scan visits, in the order it visits them: the
  items named like the service, their subsets, the addresses of each subset.\<close>

definition ready_addresses :: "config \<Rightarrow> Endpoints list \<Rightarrow> EndpointAddress list" where
  "ready_addresses c items =
     concat (map Addresses (concat (map Subsets (filter (\<lambda>e. Name e = service c) items))))"

text \<open>The form of an entry of the file.\<close>

definition entry :: "config \<Rightarrow> string \<Rightarrow> string" where
  "entry c ip = ip @ '':'' @ show_int (peerPort c) @ '':'' @ show_int (apiPort c)"

text \<open>What a step added to the trace, and the writes among some actions (path and
  data of each \<open>os.WriteFile\<close> call, in order).\<close>

definition new_actions :: "world \<Rightarrow> world \<Rightarrow> action list" where
  "new_actions w w' = drop (length (trace w)) (trace w')"

fun writes_of :: "action list \<Rightarrow> (string \<times> string) list" where
  "writes_of [] = []"
| "writes_of (Wrote_File p d # as) = (p, d) # writes_of as"
| "writes_of (a # as) = writes_of as"

subsection \<open>Sample inputs\<close>

definition w0 :: world where
  "w0 = \<lparr> trace = [], files = Map.empty \<rparr>"

definition sample_items :: "Endpoints list" where
  "sample_items =
     [ \<lparr> Name = ''kubernetes'',
         Subsets = [\<lparr> Addresses = [\<lparr>IP = ''10.9.9.9''\<rparr>], NotReadyAddresses = [] \<rparr>] \<rparr>,
       \<lparr> Name = ''ts'',
         Subsets = [\<lparr> Addresses = [\<lparr>IP = ''10.0.0.3''\<rparr>, \<lparr>IP = ''10.0.0.4''\<rparr>],
                      NotReadyAddresses = [\<lparr>IP = ''10.0.0.5''\<rparr>] \<rparr>,
                    \<lparr> Addresses = [\<lparr>IP = ''10.0.0.6''\<rparr>], NotReadyAddresses = [] \<rparr>] \<rparr> ]"

definition drained_items :: "Endpoints list" where
  "drained_items =
     [ \<lparr> Name = ''ts'',
         Subsets = [\<lparr> Addresses = [], NotReadyAddresses = [\<lparr>IP = ''10.0.0.5''\<rparr>] \<rparr>] \<rparr> ]"

definition sample_pods :: "Pod list" where
  "sample_pods = [\<lparr> PodIP = ''10.0.0.5'', PodReady = False \<rparr>, \<lparr> PodIP = ''10.0.0.7'', PodReady = True \<rparr>]"

definition cycle_ok :: cycle where
  "cycle_ok = \<lparr> endpoints_list = Inr sample_items, pods_list = Inr sample_pods, write_file = Write_Ok \<rparr>"

definition cycle_drained :: cycle where
  "cycle_drained = \<lparr> endpoints_list = Inr drained_items, pods_list = Inr sample_pods, write_file = Write_Ok \<rparr>"

definition cycle_list_error :: cycle where
  "cycle_list_error = \<lparr> endpoints_list = Inl ''timeout'', pods_list = Inr sample_pods, write_file = Write_Ok \<rparr>"

definition cycle_pods_error :: cycle where
  "cycle_pods_error = \<lparr> endpoints_list = Inr drained_items, pods_list = Inl ''forbidden'', write_file = Write_Ok \<rparr>"

definition cycle_write_error :: cycle where
  "cycle_write_error =
     \<lparr> endpoints_list = Inr sample_items, pods_list = Inr sample_pods,
       write_file = Write_Err ''read-only file system'' None \<rparr>"

definition host_addrs :: "Addr list" where
  "host_addrs = [IPNet [127, 0, 0, 1] [255, 0, 0, 0], IPNet [10, 0, 0, 9] [255, 255, 255, 0]]"

definition env_ok :: startup where
  "env_ok =
     \<lparr> kubeconfig_missing = True,
       InClusterConfig = Inr Rest_Config,
       BuildConfigFromFlags = Inl ''no such file'',
       NewForConfig = Inr Clientset,
       Watch = Inr Watcher,
       LookupEnv = Some ''10.0.0.1:8107:8108,10.0.0.2:8107:8108'',
       InterfaceAddrs = Inr host_addrs,
       bootstrap_write = Write_Ok,
       notifications = [cycle_ok] \<rparr>"

definition w_seeded :: world where
  "w_seeded =
     \<lparr> trace = [],
       files = [''/usr/share/typesense/nodes'' \<mapsto> ''10.0.0.3:8107:8108,10.0.0.9:8107:8108''] \<rparr>"

definition env_read_only :: startup where
  "env_read_only = env_ok\<lparr>bootstrap_write := Write_Err ''read-only file system'' None\<rparr>"

definition loopback_only_addrs :: "Addr list" where
  "loopback_only_addrs =
     [IPNet [127, 0, 0, 1] [255, 0, 0, 0],
      IPNet IPv6loopback [255, 255, 255, 255, 255, 255, 255, 255, 255, 255, 255, 255, 255, 255, 255, 255],
      Other_Addr ''ip+net'']"

definition env_no_ipv4 :: startup where
  "env_no_ipv4 = env_ok\<lparr>InterfaceAddrs := Inr loopback_only_addrs\<rparr>"

definition custom_ports_config :: config where
  "custom_ports_config = default_config\<lparr>apiPort := 9108, peerPort := 9107\<rparr>"

definition env_config_fails :: startup where
  "env_config_fails = env_ok\<lparr>InClusterConfig := Inl ''no service account''\<rparr>"

definition env_client_fails :: startup where
  "env_client_fails = env_ok\<lparr>NewForConfig := Inl ''invalid host''\<rparr>"

definition env_watch_fails :: startup where
  "env_watch_fails = env_ok\<lparr>Watch := Inl ''connection refused''\<rparr>"

section \<open>The formatter and the endpoint scan\<close>

lemma address_loop_eq: "address_loop c ns as = ns @ map (\<lambda>a. entry c (IP a)) as"
  unfolding address_loop_def
  by (induction as arbitrary: ns) (simp_all add: Sprintf_node_def entry_def)

lemma subset_loop_eq:
  "subset_loop c ns ss = ns @ map (\<lambda>a. entry c (IP a)) (concat (map Addresses ss))"
  unfolding subset_loop_def
  by (induction ss arbitrary: ns) (simp_all add: address_loop_eq)

lemma items_loop_eq:
  "items_loop c ns es = ns @ map (\<lambda>a. entry c (IP a)) (ready_addresses c es)"
  unfolding items_loop_def ready_addresses_def
  by (induction es arbitrary: ns) (simp_all add: subset_loop_eq)

lemma pods_loop_eq: "pods_loop c ns ps = ns @ map (\<lambda>p. entry c (PodIP p)) ps"
  unfolding pods_loop_def
  by (induction ps arbitrary: ns) (simp_all add: Sprintf_node_def entry_def)

lemma digit_char_not_sep:
  assumes "d < 10"
  shows "digit_char d \<noteq> CHR '':'' \<and> digit_char d \<noteq> CHR '',''"
proof -
  from assms have "d \<in> {0, 1, 2, 3, 4, 5, 6, 7, 8, 9}" by auto
  then show ?thesis by (auto simp: digit_char_def)
qed

lemma show_nat_chars: "x \<in> set (show_nat n) \<Longrightarrow> x \<noteq> CHR '':'' \<and> x \<noteq> CHR '',''"
proof (induction n rule: show_nat.induct)
  case (1 n)
  show ?case
  proof (cases "n < 10")
    case True
    with 1(2) show ?thesis by (simp add: show_nat.simps[of n] digit_char_not_sep)
  next
    case False
    with 1 show ?thesis
      by (auto simp: show_nat.simps[of n] digit_char_not_sep)
  qed
qed

lemma show_int_chars: "x \<in> set (show_int i) \<Longrightarrow> x \<noteq> CHR '':'' \<and> x \<noteq> CHR '',''"
  by (auto simp: show_int_def dest: show_nat_chars split: if_splits)

lemma show_nat_nonempty: "show_nat n \<noteq> []"
  by (subst show_nat.simps) simp

lemma entry_nonempty: "entry c ip \<noteq> []"
  by (simp add: entry_def)

lemma strings_Join_Nil_iff:
  "strings_Join xs '','' = [] \<longleftrightarrow> xs = [] \<or> xs = [[]]"
  by (induction xs "'',''" rule: strings_Join.induct) auto

lemma show_8107: "show_int 8107 = ''8107''"
  by (simp add: show_int_def show_nat.simps digit_char_def)

lemma show_8108: "show_int 8108 = ''8108''"
  by (simp add: show_int_def show_nat.simps digit_char_def)

lemma sample_ready:
  "ready_addresses default_config sample_items =
     [\<lparr>IP = ''10.0.0.3''\<rparr>, \<lparr>IP = ''10.0.0.4''\<rparr>, \<lparr>IP = ''10.0.0.6''\<rparr>]"
  by (simp add: ready_addresses_def default_config_def sample_items_def)

lemma default_ports: "peerPort default_config = 8107" "apiPort default_config = 8108"
  by (simp_all add: default_config_def)

text \<open>
  C9. When the endpoints listing succeeds, the scan appends one entry per address
  of the items named like the service, in the order items, subsets, addresses; an
  entry is the address, a colon, the peer port, a colon, the API port, and the
  decimal ports bring no colon and no comma of their own. Both resolvers return
  these entries joined by commas (the one of \<open>main.go\<close> when there is at least
  one).
\<close>

theorem getNodes_entries_in_order:
  assumes "endpoints_list cy = Inr items"
  shows "items_loop c [] items =
           map (\<lambda>a. IP a @ '':'' @ show_int (peerPort c) @ '':'' @ show_int (apiPort c))
             (ready_addresses c items)
       \<and> fst (bootstrap_getNodes c cy w) =
           strings_Join
             (map (\<lambda>a. IP a @ '':'' @ show_int (peerPort c) @ '':'' @ show_int (apiPort c))
               (ready_addresses c items)) '',''
       \<and> (ready_addresses c items \<noteq> [] \<longrightarrow>
            fst (fallback_getNodes c cy w) =
              strings_Join
                (map (\<lambda>a. IP a @ '':'' @ show_int (peerPort c) @ '':'' @ show_int (apiPort c))
                  (ready_addresses c items)) '','')
       \<and> CHR '':'' \<notin> set (show_int (peerPort c)) \<and> CHR '','' \<notin> set (show_int (peerPort c))
       \<and> CHR '':'' \<notin> set (show_int (apiPort c)) \<and> CHR '','' \<notin> set (show_int (apiPort c))"
proof -
  have scan: "items_loop c [] items =
      map (\<lambda>a. IP a @ '':'' @ show_int (peerPort c) @ '':'' @ show_int (apiPort c))
        (ready_addresses c items)"
    by (simp add: items_loop_eq entry_def)
  have b: "fst (bootstrap_getNodes c cy w) = strings_Join (items_loop c [] items) '',''"
    using assms by (simp add: bootstrap_getNodes_def Let_def)
  have f: "ready_addresses c items \<noteq> [] \<longrightarrow>
      fst (fallback_getNodes c cy w) = strings_Join (items_loop c [] items) '',''"
    using assms by (simp add: fallback_getNodes_def Let_def items_loop_eq)
  have seps: "CHR '':'' \<notin> set (show_int (peerPort c)) \<and> CHR '','' \<notin> set (show_int (peerPort c))
       \<and> CHR '':'' \<notin> set (show_int (apiPort c)) \<and> CHR '','' \<notin> set (show_int (apiPort c))"
    using show_int_chars by blast
  from scan b f seps show ?thesis by simp
qed

theorem getNodes_entries_in_order_witness:
  "endpoints_list cycle_ok = Inr sample_items
   \<and> ready_addresses default_config sample_items \<noteq> []
   \<and> fst (bootstrap_getNodes default_config cycle_ok w0) =
       ''10.0.0.3:8107:8108,10.0.0.4:8107:8108,10.0.0.6:8107:8108''
   \<and> fst (fallback_getNodes default_config cycle_ok w0) =
       ''10.0.0.3:8107:8108,10.0.0.4:8107:8108,10.0.0.6:8107:8108''"
proof -
  have h: "endpoints_list cycle_ok = Inr sample_items" by (simp add: cycle_ok_def)
  show ?thesis
    using getNodes_entries_in_order [OF h, of default_config w0] h
    by (simp add: sample_ready default_ports show_8107 show_8108)
qed

section \<open>The resolvers, case by case\<close>

lemma new_actions_append [simp]: "new_actions w (w\<lparr>trace := trace w @ acts\<rparr>) = acts"
  by (simp add: new_actions_def)

lemma new_actions_same [simp]: "new_actions w w = []"
  by (simp add: new_actions_def)

lemma writes_of_append: "writes_of (xs @ ys) = writes_of xs @ writes_of ys"
  by (induction xs rule: writes_of.induct) simp_all

lemma bootstrap_getNodes_err:
  "endpoints_list cy = Inl err \<Longrightarrow>
   bootstrap_getNodes c cy w =
     ([], w\<lparr>trace := trace w @ [Listed_Endpoints (namespace c), Logged (''failed to list endpoints: '' @ err @ nl)]\<rparr>)"
  by (simp add: bootstrap_getNodes_def Let_def record_call_def log_Printf_def)

lemma bootstrap_getNodes_ok:
  "endpoints_list cy = Inr items \<Longrightarrow>
   bootstrap_getNodes c cy w =
     (strings_Join (map (\<lambda>a. entry c (IP a)) (ready_addresses c items)) '','',
      w\<lparr>trace := trace w @ [Listed_Endpoints (namespace c)]\<rparr>)"
  by (simp add: bootstrap_getNodes_def Let_def record_call_def items_loop_eq)

lemma fallback_getNodes_err:
  "endpoints_list cy = Inl err \<Longrightarrow>
   fallback_getNodes c cy w =
     ([], w\<lparr>trace := trace w @ [Listed_Endpoints (namespace c), Logged (''failed to list endpoints: '' @ err @ nl)]\<rparr>)"
  by (simp add: fallback_getNodes_def Let_def record_call_def log_Printf_def)

lemma fallback_getNodes_ready:
  "endpoints_list cy = Inr items \<Longrightarrow> ready_addresses c items \<noteq> [] \<Longrightarrow>
   fallback_getNodes c cy w =
     (strings_Join (map (\<lambda>a. entry c (IP a)) (ready_addresses c items)) '','',
      w\<lparr>trace := trace w @ [Listed_Endpoints (namespace c)]\<rparr>)"
  by (simp add: fallback_getNodes_def Let_def record_call_def items_loop_eq)

lemma fallback_getNodes_pods_err:
  "endpoints_list cy = Inr items \<Longrightarrow> ready_addresses c items = [] \<Longrightarrow> pods_list cy = Inl err \<Longrightarrow>
   fallback_getNodes c cy w =
     ([], w\<lparr>trace := trace w @ [Listed_Endpoints (namespace c), Listed_Pods (namespace c) (appSelector c),
                                 Logged (''failed to list pods: '' @ err @ nl)]\<rparr>)"
  by (simp add: fallback_getNodes_def Let_def record_call_def log_Printf_def items_loop_eq)

lemma fallback_getNodes_pods:
  "endpoints_list cy = Inr items \<Longrightarrow> ready_addresses c items = [] \<Longrightarrow> pods_list cy = Inr pods \<Longrightarrow>
   fallback_getNodes c cy w =
     (strings_Join (map (\<lambda>p. entry c (PodIP p)) pods) '','',
      w\<lparr>trace := trace w @ [Listed_Endpoints (namespace c), Listed_Pods (namespace c) (appSelector c)]\<rparr>)"
  by (simp add: fallback_getNodes_def Let_def record_call_def log_Printf_def items_loop_eq pods_loop_eq)

text \<open>
  C6. In \<open>getNodes\<close> of \<open>main.go\<close> the pods are listed exactly when the endpoints
  listing succeeded and the scan found no address of the service. The result is
  then one entry per listed pod, from its \<open>PodIP\<close>, whatever its readiness.
\<close>

theorem pod_listing_iff_scan_empty:
  "((\<exists>ns sel. Listed_Pods ns sel \<in> set (new_actions w (snd (fallback_getNodes c cy w))))
      \<longleftrightarrow> (case endpoints_list cy of Inl err \<Rightarrow> False | Inr items \<Rightarrow> ready_addresses c items = []))
   \<and> (\<forall>items pods. endpoints_list cy = Inr items \<and> ready_addresses c items = [] \<and> pods_list cy = Inr pods \<longrightarrow>
         fst (fallback_getNodes c cy w) =
           strings_Join
             (map (\<lambda>p. PodIP p @ '':'' @ show_int (peerPort c) @ '':'' @ show_int (apiPort c)) pods) '','')"
proof -
  have a: "(\<exists>ns sel. Listed_Pods ns sel \<in> set (new_actions w (snd (fallback_getNodes c cy w))))
      \<longleftrightarrow> (case endpoints_list cy of Inl err \<Rightarrow> False | Inr items \<Rightarrow> ready_addresses c items = [])"
  proof (cases "endpoints_list cy")
    case (Inl err)
    then show ?thesis by (simp add: fallback_getNodes_err)
  next
    case (Inr items)
    show ?thesis
    proof (cases "ready_addresses c items = []")
      case False
      with Inr show ?thesis by (simp add: fallback_getNodes_ready)
    next
      case True
      with Inr show ?thesis
        by (cases "pods_list cy") (simp_all add: fallback_getNodes_pods_err fallback_getNodes_pods)
    qed
  qed
  have b: "\<forall>items pods. endpoints_list cy = Inr items \<and> ready_addresses c items = [] \<and> pods_list cy = Inr pods \<longrightarrow>
         fst (fallback_getNodes c cy w) =
           strings_Join
             (map (\<lambda>p. PodIP p @ '':'' @ show_int (peerPort c) @ '':'' @ show_int (apiPort c)) pods) '',''"
    by (simp add: fallback_getNodes_pods entry_def)
  from a b show ?thesis by blast
qed

lemma drained_ready: "ready_addresses default_config drained_items = []"
  by (simp add: ready_addresses_def default_config_def drained_items_def)

theorem pod_listing_iff_scan_empty_witness:
  "endpoints_list cycle_drained = Inr drained_items \<and> ready_addresses default_config drained_items = []
   \<and> pods_list cycle_drained = Inr sample_pods
   \<and> (\<exists>ns sel. Listed_Pods ns sel \<in> set (new_actions w0 (snd (fallback_getNodes default_config cycle_drained w0))))
   \<and> fst (fallback_getNodes default_config cycle_drained w0) = ''10.0.0.5:8107:8108,10.0.0.7:8107:8108''"
proof -
  have h: "endpoints_list cycle_drained = Inr drained_items" "pods_list cycle_drained = Inr sample_pods"
    by (simp_all add: cycle_drained_def)
  show ?thesis
    using pod_listing_iff_scan_empty [of w0 default_config cycle_drained] h drained_ready
    by (simp add: sample_pods_def default_ports show_8107 show_8108)
qed

section \<open>One pass of each watch loop\<close>

lemma new_actions_trace: "trace w' = trace w @ acts \<Longrightarrow> new_actions w w' = acts"
  by (simp add: new_actions_def)

lemma bootstrap_getNodes_fst_indep: "fst (bootstrap_getNodes c cy w) = fst (bootstrap_getNodes c cy w')"
  by (simp add: bootstrap_getNodes_def Let_def split: sum.splits)

lemma fallback_getNodes_fst_indep: "fst (fallback_getNodes c cy w) = fst (fallback_getNodes c cy w')"
  by (simp add: fallback_getNodes_def Let_def split: sum.splits)

lemma bootstrap_getNodes_world:
  "\<exists>acts. trace (snd (bootstrap_getNodes c cy w)) = trace w @ acts \<and> writes_of acts = []"
  by (cases "endpoints_list cy") (simp_all add: bootstrap_getNodes_err bootstrap_getNodes_ok)

lemma getNodes_files:
  "files (snd (bootstrap_getNodes c cy w)) = files w" "files (snd (fallback_getNodes c cy w)) = files w"
  by (simp_all add: bootstrap_getNodes_def fallback_getNodes_def Let_def record_call_def log_Printf_def
        split: sum.splits)

lemma fallback_getNodes_world:
  "\<exists>acts. trace (snd (fallback_getNodes c cy w)) = trace w @ acts \<and> writes_of acts = []"
proof (cases "endpoints_list cy")
  case (Inl err)
  then show ?thesis by (simp add: fallback_getNodes_err)
next
  case (Inr items)
  show ?thesis
  proof (cases "ready_addresses c items = []")
    case False
    with Inr show ?thesis by (simp add: fallback_getNodes_ready)
  next
    case True
    with Inr show ?thesis
      by (cases "pods_list cy") (simp_all add: fallback_getNodes_pods_err fallback_getNodes_pods)
  qed
qed

lemma os_WriteFile_world:
  "trace (snd (os_WriteFile out name data w)) = trace w @ [Wrote_File name data]"
  by (simp add: os_WriteFile_def Let_def record_call_def split: write_outcome.splits option.splits)

lemma os_WriteFile_ok:
  "os_WriteFile Write_Ok name data w =
     (None, w\<lparr>trace := trace w @ [Wrote_File name data], files := (files w)(name \<mapsto> data)\<rparr>)"
  by (simp add: os_WriteFile_def Let_def record_call_def)

lemma os_WriteFile_fst:
  "fst (os_WriteFile out name data w) = (case out of Write_Ok \<Rightarrow> None | Write_Err e left \<Rightarrow> Some e)"
  by (simp add: os_WriteFile_def Let_def split: write_outcome.splits)

lemma bootstrap_cycle_empty:
  "fst (bootstrap_getNodes c cy w) = [] \<Longrightarrow> bootstrap_cycle c t cy w = snd (bootstrap_getNodes c cy w)"
  by (cases "bootstrap_getNodes c cy w") (simp add: bootstrap_cycle_def)

lemma bootstrap_cycle_trace:
  "\<exists>acts. trace (bootstrap_cycle c t cy w) = trace w @ acts \<and>
      writes_of acts = (if fst (bootstrap_getNodes c cy w) = [] then []
                        else [(nodesFile c, fst (bootstrap_getNodes c cy w) @ '','' @ t)])"
proof -
  obtain nodes w1 where g: "bootstrap_getNodes c cy w = (nodes, w1)" by (cases "bootstrap_getNodes c cy w")
  from bootstrap_getNodes_world [of c cy w] g obtain acts
    where w1: "trace w1 = trace w @ acts" and wr: "writes_of acts = []" by auto
  show ?thesis
  proof (cases "nodes = []")
    case True
    with g w1 wr show ?thesis by (simp add: bootstrap_cycle_def)
  next
    case False
    let ?data = "nodes @ '','' @ t"
    let ?w2 = "log_Printf (''found nodes (and added self): '' @ ?data @ nl) w1"
    obtain err w3 where o: "os_WriteFile (write_file cy) (nodesFile c) ?data ?w2 = (err, w3)"
      by (cases "os_WriteFile (write_file cy) (nodesFile c) ?data ?w2")
    from os_WriteFile_world [of "write_file cy" "nodesFile c" ?data ?w2] o
    have t3: "trace w3 = trace w @ acts @ [Logged (''found nodes (and added self): '' @ ?data @ nl), Wrote_File (nodesFile c) ?data]"
      by (simp add: w1 log_Printf_def)
    show ?thesis
    proof (cases err)
      case None
      with g False o t3 wr show ?thesis
        by (simp add: bootstrap_cycle_def Let_def writes_of_append)
    next
      case (Some e)
      with g False o t3 wr have "trace (bootstrap_cycle c t cy w) =
          trace w @ (acts @ [Logged (''found nodes (and added self): '' @ ?data @ nl), Wrote_File (nodesFile c) ?data,
             Logged (''failed to write nodes file: '' @ e @ nl)])"
        by (simp add: bootstrap_cycle_def Let_def log_Printf_def)
      moreover have "writes_of (acts @ [Logged (''found nodes (and added self): '' @ ?data @ nl), Wrote_File (nodesFile c) ?data,
             Logged (''failed to write nodes file: '' @ e @ nl)]) = [(nodesFile c, ?data)]"
        using wr by (simp add: writes_of_append)
      ultimately show ?thesis using g False by auto
    qed
  qed
qed

lemma fallback_cycle_trace:
  "\<exists>acts. trace (fallback_cycle c cy w) = trace w @ acts \<and>
      writes_of acts = [(nodesFile c, fst (fallback_getNodes c cy w))]"
proof -
  obtain nodes w1 where g: "fallback_getNodes c cy w = (nodes, w1)" by (cases "fallback_getNodes c cy w")
  from fallback_getNodes_world [of c cy w] g obtain acts
    where w1: "trace w1 = trace w @ acts" and wr: "writes_of acts = []" by auto
  obtain err w2 where o: "os_WriteFile (write_file cy) (nodesFile c) nodes w1 = (err, w2)"
    by (cases "os_WriteFile (write_file cy) (nodesFile c) nodes w1")
  from os_WriteFile_world [of "write_file cy" "nodesFile c" nodes w1] o
  have t2: "trace w2 = trace w @ acts @ [Wrote_File (nodesFile c) nodes]"
    by (simp add: w1)
  show ?thesis
  proof (cases err)
    case None
    with g o t2 wr show ?thesis by (simp add: fallback_cycle_def writes_of_append)
  next
    case (Some e)
    with g o t2 have "trace (fallback_cycle c cy w) =
        trace w @ (acts @ [Wrote_File (nodesFile c) nodes, Logged (''failed to write nodes file: '' @ e @ nl)])"
      by (simp add: fallback_cycle_def log_Printf_def)
    moreover have "writes_of (acts @ [Wrote_File (nodesFile c) nodes, Logged (''failed to write nodes file: '' @ e @ nl)])
        = [(nodesFile c, nodes)]"
      using wr by (simp add: writes_of_append)
    ultimately show ?thesis using g by auto
  qed
qed

lemma bootstrap_loop_trace:
  "\<exists>acts. trace (bootstrap_loop c t cys w) = trace w @ acts \<and>
      writes_of acts =
        concat (map (\<lambda>cy. if fst (bootstrap_getNodes c cy v) = [] then []
                           else [(nodesFile c, fst (bootstrap_getNodes c cy v) @ '','' @ t)]) cys)"
proof (induction cys arbitrary: w)
  case Nil
  show ?case by simp
next
  case (Cons cy cys)
  from bootstrap_cycle_trace [of c t cy w] obtain a1 where
    a1: "trace (bootstrap_cycle c t cy w) = trace w @ a1"
    "writes_of a1 = (if fst (bootstrap_getNodes c cy w) = [] then []
                        else [(nodesFile c, fst (bootstrap_getNodes c cy w) @ '','' @ t)])" by blast
  from Cons.IH [of "bootstrap_cycle c t cy w"] obtain a2 where
    a2: "trace (bootstrap_loop c t cys (bootstrap_cycle c t cy w)) = trace (bootstrap_cycle c t cy w) @ a2"
    "writes_of a2 = concat (map (\<lambda>cy. if fst (bootstrap_getNodes c cy v) = [] then []
                           else [(nodesFile c, fst (bootstrap_getNodes c cy v) @ '','' @ t)]) cys)" by blast
  have "trace (bootstrap_loop c t (cy # cys) w) = trace w @ (a1 @ a2)"
    using a1(1) a2(1) by simp
  moreover have "writes_of (a1 @ a2) = concat (map (\<lambda>cy. if fst (bootstrap_getNodes c cy v) = [] then []
                           else [(nodesFile c, fst (bootstrap_getNodes c cy v) @ '','' @ t)]) (cy # cys))"
    using a1(2) a2(2) bootstrap_getNodes_fst_indep [of c cy w v] by (simp add: writes_of_append)
  ultimately show ?case by blast
qed

lemma fallback_loop_trace:
  "\<exists>acts. trace (fallback_loop c cys w) = trace w @ acts \<and>
      writes_of acts = map (\<lambda>cy. (nodesFile c, fst (fallback_getNodes c cy v))) cys"
proof (induction cys arbitrary: w)
  case Nil
  show ?case by simp
next
  case (Cons cy cys)
  from fallback_cycle_trace [of c cy w] obtain a1 where
    a1: "trace (fallback_cycle c cy w) = trace w @ a1"
    "writes_of a1 = [(nodesFile c, fst (fallback_getNodes c cy w))]" by blast
  from Cons.IH [of "fallback_cycle c cy w"] obtain a2 where
    a2: "trace (fallback_loop c cys (fallback_cycle c cy w)) = trace (fallback_cycle c cy w) @ a2"
    "writes_of a2 = map (\<lambda>cy. (nodesFile c, fst (fallback_getNodes c cy v))) cys" by blast
  have "trace (fallback_loop c (cy # cys) w) = trace w @ (a1 @ a2)"
    using a1(1) a2(1) by simp
  moreover have "writes_of (a1 @ a2) = map (\<lambda>cy. (nodesFile c, fst (fallback_getNodes c cy v))) (cy # cys)"
    using a1(2) a2(2) fallback_getNodes_fst_indep [of c cy w v] by (simp add: writes_of_append)
  ultimately show ?case by blast
qed

section \<open>When the file is written\<close>

lemma nodes_path: "nodesFile default_config = ''/usr/share/typesense/nodes''"
  by (simp add: default_config_def)

lemma resolved_list_error: "fst (fallback_getNodes default_config cycle_list_error w) = []"
  "fst (bootstrap_getNodes default_config cycle_list_error w) = []"
  by (simp_all add: fallback_getNodes_err [of _ "''timeout''"] bootstrap_getNodes_err [of _ "''timeout''"] cycle_list_error_def)

text \<open>
  C1, as stated, fails on \<open>main.go\<close>: its loop writes whatever the resolver
  returned. Here the endpoints listing fails, the resolver returns the empty
  string, and the file that held two entries is rewritten to the empty string.
\<close>

theorem fallback_write_truncates_counterexample:
  "files w_seeded (nodesFile default_config) = Some ''10.0.0.3:8107:8108,10.0.0.9:8107:8108''
   \<and> fst (fallback_getNodes default_config cycle_list_error w_seeded) = []
   \<and> writes_of (trace (fallback_cycle default_config cycle_list_error w_seeded)) = [(nodesFile default_config, [])]
   \<and> files (fallback_cycle default_config cycle_list_error w_seeded) (nodesFile default_config) = Some []"
  by (simp add: fallback_cycle_def fallback_getNodes_err [of _ "''timeout''"] cycle_list_error_def
       os_WriteFile_ok w_seeded_def nodes_path)

text \<open>
  C1, amended. In the loop of the second file a pass calls \<open>os.WriteFile\<close> exactly
  when the resolver's result is not empty, with that result, a comma and the self
  entry; on an empty result the file system is left as it was, and a write that
  succeeds makes the joined string the content of the file. Over any sequence of
  notifications the writes are those of the passes with a non-empty result, in
  order. In the loop of \<open>main.go\<close> every pass calls \<open>os.WriteFile\<close> once, with the
  resolver's result, empty or not.
\<close>

theorem watch_cycle_writes:
  "writes_of (new_actions w (bootstrap_cycle c t cy w)) =
      (if fst (bootstrap_getNodes c cy w) = [] then []
       else [(nodesFile c, fst (bootstrap_getNodes c cy w) @ '','' @ t)])
   \<and> (fst (bootstrap_getNodes c cy w) = [] \<longrightarrow> files (bootstrap_cycle c t cy w) = files w)
   \<and> (fst (bootstrap_getNodes c cy w) \<noteq> [] \<and> write_file cy = Write_Ok \<longrightarrow>
        files (bootstrap_cycle c t cy w) =
          (files w)(nodesFile c \<mapsto> fst (bootstrap_getNodes c cy w) @ '','' @ t))
   \<and> writes_of (new_actions w (bootstrap_loop c t cys w)) =
        concat (map (\<lambda>cy. if fst (bootstrap_getNodes c cy w) = [] then []
                           else [(nodesFile c, fst (bootstrap_getNodes c cy w) @ '','' @ t)]) cys)
   \<and> writes_of (new_actions w (fallback_cycle c cy w)) = [(nodesFile c, fst (fallback_getNodes c cy w))]
   \<and> writes_of (new_actions w (fallback_loop c cys w)) =
        map (\<lambda>cy. (nodesFile c, fst (fallback_getNodes c cy w))) cys"
proof -
  have a: "writes_of (new_actions w (bootstrap_cycle c t cy w)) =
      (if fst (bootstrap_getNodes c cy w) = [] then []
       else [(nodesFile c, fst (bootstrap_getNodes c cy w) @ '','' @ t)])"
    using bootstrap_cycle_trace [of c t cy w] by (auto simp: new_actions_trace)
  have b: "fst (bootstrap_getNodes c cy w) = [] \<longrightarrow> files (bootstrap_cycle c t cy w) = files w"
    by (simp add: bootstrap_cycle_empty getNodes_files)
  have c: "fst (bootstrap_getNodes c cy w) \<noteq> [] \<and> write_file cy = Write_Ok \<longrightarrow>
        files (bootstrap_cycle c t cy w) =
          (files w)(nodesFile c \<mapsto> fst (bootstrap_getNodes c cy w) @ '','' @ t)"
  proof (cases "bootstrap_getNodes c cy w")
    case (Pair nodes w1)
    with getNodes_files(1) [of c cy w] have "files w1 = files w" by simp
    with Pair show ?thesis
      by (simp add: bootstrap_cycle_def Let_def os_WriteFile_ok log_Printf_def)
  qed
  have d: "writes_of (new_actions w (bootstrap_loop c t cys w)) =
        concat (map (\<lambda>cy. if fst (bootstrap_getNodes c cy w) = [] then []
                           else [(nodesFile c, fst (bootstrap_getNodes c cy w) @ '','' @ t)]) cys)"
    using bootstrap_loop_trace [of c t cys w w] by (auto simp: new_actions_trace)
  have e: "writes_of (new_actions w (fallback_cycle c cy w)) = [(nodesFile c, fst (fallback_getNodes c cy w))]"
    using fallback_cycle_trace [of c cy w] by (auto simp: new_actions_trace)
  have f: "writes_of (new_actions w (fallback_loop c cys w)) =
        map (\<lambda>cy. (nodesFile c, fst (fallback_getNodes c cy w))) cys"
    using fallback_loop_trace [of c cys w w] by (auto simp: new_actions_trace)
  from a b c d e f show ?thesis by simp
qed

theorem watch_cycle_writes_witness:
  "fst (bootstrap_getNodes default_config cycle_list_error w_seeded) = []
   \<and> files (bootstrap_cycle default_config ''10.0.0.9:8107:8108'' cycle_list_error w_seeded) = files w_seeded
   \<and> fst (bootstrap_getNodes default_config cycle_ok w_seeded) \<noteq> [] \<and> write_file cycle_ok = Write_Ok
   \<and> files (bootstrap_cycle default_config ''10.0.0.9:8107:8108'' cycle_ok w_seeded) (nodesFile default_config)
       = Some ''10.0.0.3:8107:8108,10.0.0.4:8107:8108,10.0.0.6:8107:8108,10.0.0.9:8107:8108''"
proof -
  have g: "fst (bootstrap_getNodes default_config cycle_ok w_seeded) =
      ''10.0.0.3:8107:8108,10.0.0.4:8107:8108,10.0.0.6:8107:8108''"
    by (simp add: bootstrap_getNodes_ok [of _ sample_items] cycle_ok_def sample_ready entry_def
          default_ports show_8107 show_8108)
  have k: "write_file cycle_ok = Write_Ok" by (simp add: cycle_ok_def)
  show ?thesis
    using watch_cycle_writes [of w_seeded default_config "''10.0.0.9:8107:8108''" cycle_list_error "[]"]
      watch_cycle_writes [of w_seeded default_config "''10.0.0.9:8107:8108''" cycle_ok "[]"]
    by (simp add: resolved_list_error g k)
qed

section \<open>Startup and the whole run\<close>

lemma startup_then_loop:
  "fst (bootstrap_startup c env w) = Inr t \<Longrightarrow>
   bootstrap_main c env w =
     (Returned, bootstrap_loop c t (notifications env)
        (record_call (Called_ResultChan (Some Watcher)) (snd (bootstrap_startup c env w))))"
  by (cases "bootstrap_startup c env w") (simp add: bootstrap_main_def)

lemma bootstrap_config_world:
  "fst (bootstrap_config env w) = Inr cfg \<Longrightarrow> snd (bootstrap_config env w) = w"
  by (simp add: bootstrap_config_def split: if_splits sum.splits)

lemma bootstrap_connect_world:
  assumes "fst (bootstrap_connect c env w) = Inr (cl, wt)"
  shows "\<exists>cfg. snd (bootstrap_connect c env w) =
           w\<lparr>trace := trace w @ [Called_NewForConfig (Some cfg), Called_Watch (Some cl) (namespace c)]\<rparr>"
proof (cases "bootstrap_config env w")
  case (Pair r w1)
  show ?thesis
  proof (cases r)
    case (Inl e)
    with Pair assms show ?thesis by (simp add: bootstrap_connect_def)
  next
    case (Inr cfg)
    with Pair bootstrap_config_world [of env w cfg] have w1: "w1 = w" by simp
    from assms Pair Inr w1 show ?thesis
      by (auto simp: bootstrap_connect_def Let_def record_call_def split: sum.splits)
  qed
qed

lemma bootstrap_startup_connected:
  "fst (bootstrap_connect c env w) = Inr (cl, wt) \<Longrightarrow>
   bootstrap_startup c env w = bootstrap_seed c env (snd (bootstrap_connect c env w))"
  by (cases "bootstrap_connect c env w") (simp add: bootstrap_startup_def)

lemma bootstrap_seed_ok:
  assumes "InterfaceAddrs env = Inr addrs" "LookupEnv env = Some seed" "bootstrap_write env = Write_Ok"
  shows "bootstrap_seed c env w =
    (Inr (Sprintf_node (first_ipv4 addrs) 8107 8108),
     w\<lparr>trace := trace w @
          [Logged (''Bootstrapping cluster with initial node list: '' @ seed @ '','' @ Sprintf_node (first_ipv4 addrs) 8107 8108),
           Wrote_File (nodesFile c) (seed @ '','' @ Sprintf_node (first_ipv4 addrs) 8107 8108)],
        files := (files w)(nodesFile c \<mapsto> seed @ '','' @ Sprintf_node (first_ipv4 addrs) 8107 8108)\<rparr>)"
  using assms by (simp add: bootstrap_seed_def getCurrentIP_def Let_def os_WriteFile_ok log_Printf_def)

lemma bootstrap_seed_write_error:
  assumes "InterfaceAddrs env = Inr addrs" "LookupEnv env = Some seed" "bootstrap_write env = Write_Err e left"
  shows "fst (bootstrap_seed c env w) = Inl Fatal"
    and "trace (snd (bootstrap_seed c env w)) = trace w @
          [Logged (''Bootstrapping cluster with initial node list: '' @ seed @ '','' @ Sprintf_node (first_ipv4 addrs) 8107 8108),
           Wrote_File (nodesFile c) (seed @ '','' @ Sprintf_node (first_ipv4 addrs) 8107 8108),
           Logged (''failed to write node list: '' @ e @ nl)]"
  using assms
  by (simp_all add: bootstrap_seed_def getCurrentIP_def Let_def os_WriteFile_def log_Printf_def record_call_def
        split: option.splits)

lemma bootstrap_seed_absent:
  assumes "InterfaceAddrs env = Inr addrs" "LookupEnv env = None"
  shows "bootstrap_seed c env w = (Inr (Sprintf_node (first_ipv4 addrs) 8107 8108), w)"
  using assms by (simp add: bootstrap_seed_def getCurrentIP_def Let_def)

lemma bootstrap_startup_seeded:
  assumes "fst (bootstrap_connect c env w) = Inr (cl, wt)"
      and "InterfaceAddrs env = Inr addrs" "LookupEnv env = Some seed" "bootstrap_write env = Write_Ok"
  shows "fst (bootstrap_startup c env w) = Inr (Sprintf_node (first_ipv4 addrs) 8107 8108)"
    and "writes_of (new_actions w (snd (bootstrap_startup c env w))) =
           [(nodesFile c, seed @ '','' @ Sprintf_node (first_ipv4 addrs) 8107 8108)]"
    and "files (snd (bootstrap_startup c env w)) =
           (files w)(nodesFile c \<mapsto> seed @ '','' @ Sprintf_node (first_ipv4 addrs) 8107 8108)"
proof -
  from bootstrap_connect_world [OF assms(1)] obtain cfg where
    w1: "snd (bootstrap_connect c env w) =
           w\<lparr>trace := trace w @ [Called_NewForConfig (Some cfg), Called_Watch (Some cl) (namespace c)]\<rparr>"
    by blast
  let ?w1 = "snd (bootstrap_connect c env w)"
  have s: "bootstrap_startup c env w = bootstrap_seed c env ?w1"
    by (rule bootstrap_startup_connected [OF assms(1)])
  show "fst (bootstrap_startup c env w) = Inr (Sprintf_node (first_ipv4 addrs) 8107 8108)"
    by (simp add: s bootstrap_seed_ok [OF assms(2-4)])
  show "writes_of (new_actions w (snd (bootstrap_startup c env w))) =
           [(nodesFile c, seed @ '','' @ Sprintf_node (first_ipv4 addrs) 8107 8108)]"
    by (simp add: s bootstrap_seed_ok [OF assms(2-4)] w1 new_actions_def)
  show "files (snd (bootstrap_startup c env w)) =
           (files w)(nodesFile c \<mapsto> seed @ '','' @ Sprintf_node (first_ipv4 addrs) 8107 8108)"
    by (simp add: s bootstrap_seed_ok [OF assms(2-4)] w1)
qed

lemma bootstrap_main_writes:
  assumes "fst (bootstrap_startup c env w) = Inr t"
      and "\<exists>acts. trace (snd (bootstrap_startup c env w)) = trace w @ acts"
  shows "writes_of (new_actions w (snd (bootstrap_main c env w))) =
           writes_of (new_actions w (snd (bootstrap_startup c env w))) @
           concat (map (\<lambda>cy. if fst (bootstrap_getNodes c cy w) = [] then []
                              else [(nodesFile c, fst (bootstrap_getNodes c cy w) @ '','' @ t)])
                    (notifications env))"
proof -
  from assms(2) obtain a1 where a1: "trace (snd (bootstrap_startup c env w)) = trace w @ a1" by blast
  let ?w2 = "record_call (Called_ResultChan (Some Watcher)) (snd (bootstrap_startup c env w))"
  from bootstrap_loop_trace [of c t "notifications env" ?w2 w] obtain a2 where
    a2: "trace (bootstrap_loop c t (notifications env) ?w2) = trace ?w2 @ a2"
        "writes_of a2 = concat (map (\<lambda>cy. if fst (bootstrap_getNodes c cy w) = [] then []
                              else [(nodesFile c, fst (bootstrap_getNodes c cy w) @ '','' @ t)])
                    (notifications env))" by blast
  have "trace (snd (bootstrap_main c env w)) = trace w @ (a1 @ [Called_ResultChan (Some Watcher)] @ a2)"
    using a1 a2(1) by (simp add: startup_then_loop [OF assms(1)] record_call_def)
  then have "new_actions w (snd (bootstrap_main c env w)) = a1 @ [Called_ResultChan (Some Watcher)] @ a2"
    by (rule new_actions_trace)
  moreover have "new_actions w (snd (bootstrap_startup c env w)) = a1"
    using a1 by (rule new_actions_trace)
  ultimately show ?thesis using a2(2) by (simp add: writes_of_append)
qed

lemma host_ip: "first_ipv4 host_addrs = ''10.0.0.9''"
  by (simp add: host_addrs_def To4_def IsLoopback_def IP_String4_def show_nat.simps digit_char_def)

lemma env_ok_connect: "fst (bootstrap_connect c env_ok w) = Inr (Clientset, Watcher)"
  by (simp add: bootstrap_connect_def bootstrap_config_def env_ok_def Let_def)

lemma env_ok_fields:
  "LookupEnv env_ok = Some ''10.0.0.1:8107:8108,10.0.0.2:8107:8108''"
  "InterfaceAddrs env_ok = Inr host_addrs" "bootstrap_write env_ok = Write_Ok"
  "notifications env_ok = [cycle_ok]"
  by (simp_all add: env_ok_def)

lemma self_entry: "Sprintf_node ''10.0.0.9'' 8107 8108 = ''10.0.0.9:8107:8108''"
  by (simp add: Sprintf_node_def show_8107 show_8108)

lemma resolved_ok:
  "fst (bootstrap_getNodes default_config cycle_ok w) =
      ''10.0.0.3:8107:8108,10.0.0.4:8107:8108,10.0.0.6:8107:8108''"
  by (simp add: bootstrap_getNodes_ok [of _ sample_items] cycle_ok_def sample_ready entry_def
        default_ports show_8107 show_8108)

text \<open>
  C4. With the seed \<open>10.0.0.1:8107:8108,10.0.0.2:8107:8108\<close> in the environment,
  the self address 10.0.0.9, a startup that reaches the subscription and a write
  that succeeds: startup calls \<open>os.WriteFile\<close> exactly once, with the seed, a comma
  and the self entry, which is then the content of the file; and in the whole run
  that write comes first, before the writes of the watch loop.
\<close>

theorem bootstrap_writes_seed_and_self_once:
  assumes "fst (bootstrap_connect c env w) = Inr (cl, wt)"
      and "LookupEnv env = Some ''10.0.0.1:8107:8108,10.0.0.2:8107:8108''"
      and "InterfaceAddrs env = Inr addrs" and "first_ipv4 addrs = ''10.0.0.9''"
      and "bootstrap_write env = Write_Ok"
  shows "writes_of (new_actions w (snd (bootstrap_startup c env w))) =
           [(nodesFile c, ''10.0.0.1:8107:8108,10.0.0.2:8107:8108,10.0.0.9:8107:8108'')]
       \<and> files (snd (bootstrap_startup c env w)) (nodesFile c) =
           Some ''10.0.0.1:8107:8108,10.0.0.2:8107:8108,10.0.0.9:8107:8108''
       \<and> writes_of (new_actions w (snd (bootstrap_main c env w))) =
           (nodesFile c, ''10.0.0.1:8107:8108,10.0.0.2:8107:8108,10.0.0.9:8107:8108'') #
           concat (map (\<lambda>cy. if fst (bootstrap_getNodes c cy w) = [] then []
                              else [(nodesFile c, fst (bootstrap_getNodes c cy w) @ '','' @ ''10.0.0.9:8107:8108'')])
                    (notifications env))"
proof -
  note s = bootstrap_startup_seeded [OF assms(1) assms(3) assms(2) assms(5)]
  have t: "fst (bootstrap_startup c env w) = Inr ''10.0.0.9:8107:8108''"
    using s(1) by (simp add: assms(4) self_entry)
  have w1: "writes_of (new_actions w (snd (bootstrap_startup c env w))) =
           [(nodesFile c, ''10.0.0.1:8107:8108,10.0.0.2:8107:8108,10.0.0.9:8107:8108'')]"
    using s(2) by (simp add: assms(4) self_entry)
  have f1: "files (snd (bootstrap_startup c env w)) (nodesFile c) =
           Some ''10.0.0.1:8107:8108,10.0.0.2:8107:8108,10.0.0.9:8107:8108''"
    using s(3) by (simp add: assms(4) self_entry)
  from bootstrap_connect_world [OF assms(1)] obtain cfg where
    c1: "snd (bootstrap_connect c env w) =
           w\<lparr>trace := trace w @ [Called_NewForConfig (Some cfg), Called_Watch (Some cl) (namespace c)]\<rparr>"
    by blast
  have g: "\<exists>acts. trace (snd (bootstrap_startup c env w)) = trace w @ acts"
    by (simp add: bootstrap_startup_connected [OF assms(1)] bootstrap_seed_ok [OF assms(3) assms(2) assms(5)] c1)
  from bootstrap_main_writes [OF t g] w1 f1 show ?thesis by simp
qed

theorem bootstrap_writes_seed_and_self_once_witness:
  "fst (bootstrap_connect default_config env_ok w0) = Inr (Clientset, Watcher)
   \<and> LookupEnv env_ok = Some ''10.0.0.1:8107:8108,10.0.0.2:8107:8108''
   \<and> InterfaceAddrs env_ok = Inr host_addrs \<and> first_ipv4 host_addrs = ''10.0.0.9''
   \<and> bootstrap_write env_ok = Write_Ok
   \<and> writes_of (new_actions w0 (snd (bootstrap_main default_config env_ok w0))) =
       [(''/usr/share/typesense/nodes'', ''10.0.0.1:8107:8108,10.0.0.2:8107:8108,10.0.0.9:8107:8108''),
        (''/usr/share/typesense/nodes'', ''10.0.0.3:8107:8108,10.0.0.4:8107:8108,10.0.0.6:8107:8108,10.0.0.9:8107:8108'')]"
  using bootstrap_writes_seed_and_self_once [where c = default_config and w = w0, OF env_ok_connect env_ok_fields(1) env_ok_fields(2) host_ip env_ok_fields(3)]
  by (simp add: env_ok_connect env_ok_fields host_ip resolved_ok nodes_path)

text \<open>
  C10. With the variable present and empty, startup still writes: the data is a
  comma followed by the self entry, not the self entry alone.
\<close>

theorem empty_seed_gives_leading_comma:
  assumes "fst (bootstrap_connect c env w) = Inr (cl, wt)"
      and "LookupEnv env = Some []"
      and "InterfaceAddrs env = Inr addrs"
      and "bootstrap_write env = Write_Ok"
  shows "fst (bootstrap_startup c env w) = Inr (Sprintf_node (first_ipv4 addrs) 8107 8108)
       \<and> writes_of (new_actions w (snd (bootstrap_startup c env w))) =
           [(nodesFile c, CHR '','' # Sprintf_node (first_ipv4 addrs) 8107 8108)]
       \<and> files (snd (bootstrap_startup c env w)) (nodesFile c) =
           Some (CHR '','' # Sprintf_node (first_ipv4 addrs) 8107 8108)
       \<and> CHR '','' # Sprintf_node (first_ipv4 addrs) 8107 8108 \<noteq> Sprintf_node (first_ipv4 addrs) 8107 8108"
  using bootstrap_startup_seeded [OF assms(1) assms(3) assms(2) assms(4)] by simp

theorem empty_seed_gives_leading_comma_witness:
  "fst (bootstrap_connect default_config (env_ok\<lparr>LookupEnv := Some []\<rparr>) w0) = Inr (Clientset, Watcher)
   \<and> LookupEnv (env_ok\<lparr>LookupEnv := Some []\<rparr>) = Some []
   \<and> InterfaceAddrs (env_ok\<lparr>LookupEnv := Some []\<rparr>) = Inr host_addrs
   \<and> bootstrap_write (env_ok\<lparr>LookupEnv := Some []\<rparr>) = Write_Ok
   \<and> files (snd (bootstrap_startup default_config (env_ok\<lparr>LookupEnv := Some []\<rparr>) w0)) ''/usr/share/typesense/nodes''
       = Some '',10.0.0.9:8107:8108''"
proof -
  have c: "fst (bootstrap_connect default_config (env_ok\<lparr>LookupEnv := Some []\<rparr>) w0) = Inr (Clientset, Watcher)"
    by (simp add: bootstrap_connect_def bootstrap_config_def env_ok_def Let_def)
  have l: "LookupEnv (env_ok\<lparr>LookupEnv := Some []\<rparr>) = Some []" by simp
  have i: "InterfaceAddrs (env_ok\<lparr>LookupEnv := Some []\<rparr>) = Inr host_addrs" by (simp add: env_ok_def)
  have b: "bootstrap_write (env_ok\<lparr>LookupEnv := Some []\<rparr>) = Write_Ok" by (simp add: env_ok_def)
  show ?thesis
    using empty_seed_gives_leading_comma [OF c l i b] c i b
    by (simp add: host_ip self_entry nodes_path)
qed

lemma bootstrap_cycle_written:
  assumes "fst (bootstrap_getNodes c cy w) \<noteq> []" "write_file cy = Write_Ok"
  shows "files (bootstrap_cycle c t cy w) =
          (files w)(nodesFile c \<mapsto> fst (bootstrap_getNodes c cy w) @ '','' @ t)"
proof (cases "bootstrap_getNodes c cy w")
  case (Pair nodes w1)
  with getNodes_files(1) [of c cy w] have "files w1 = files w" by simp
  with Pair assms show ?thesis
    by (simp add: bootstrap_cycle_def Let_def os_WriteFile_ok log_Printf_def)
qed

lemma cycle_ok_write: "write_file cycle_ok = Write_Ok"
  by (simp add: cycle_ok_def)

text \<open>
  C7. When the endpoints listing fails, both resolvers log the failure and return
  the empty string, having made no other call; so does the resolver of \<open>main.go\<close>
  when the pod listing of its fall-back fails. The loop then goes on with the
  notifications that follow, and a run that got through startup ends only by
  returning from \<open>main\<close>, whatever the notifications brought.
\<close>

theorem list_error_gives_empty_and_loop_goes_on:
  "(endpoints_list cy = Inl err \<longrightarrow>
      bootstrap_getNodes c cy w =
        ([], w\<lparr>trace := trace w @ [Listed_Endpoints (namespace c),
                                    Logged (''failed to list endpoints: '' @ err @ nl)]\<rparr>)
    \<and> fallback_getNodes c cy w =
        ([], w\<lparr>trace := trace w @ [Listed_Endpoints (namespace c),
                                    Logged (''failed to list endpoints: '' @ err @ nl)]\<rparr>)
    \<and> bootstrap_loop c t (cy # cys) w =
        bootstrap_loop c t cys
          (w\<lparr>trace := trace w @ [Listed_Endpoints (namespace c),
                                  Logged (''failed to list endpoints: '' @ err @ nl)]\<rparr>))
   \<and> (endpoints_list cy = Inr items \<and> ready_addresses c items = [] \<and> pods_list cy = Inl err \<longrightarrow>
      fallback_getNodes c cy w =
        ([], w\<lparr>trace := trace w @ [Listed_Endpoints (namespace c),
                                    Listed_Pods (namespace c) (appSelector c),
                                    Logged (''failed to list pods: '' @ err @ nl)]\<rparr>))
   \<and> fallback_loop c (cy # cys) w = fallback_loop c cys (fallback_cycle c cy w)
   \<and> (fst (bootstrap_startup c env w) = Inr t \<longrightarrow> fst (bootstrap_main c env w) = Returned)"
proof -
  have a: "endpoints_list cy = Inl err \<longrightarrow>
      bootstrap_loop c t (cy # cys) w =
        bootstrap_loop c t cys
          (w\<lparr>trace := trace w @ [Listed_Endpoints (namespace c),
                                  Logged (''failed to list endpoints: '' @ err @ nl)]\<rparr>)"
    by (simp add: bootstrap_cycle_def bootstrap_getNodes_err)
  have b: "fst (bootstrap_startup c env w) = Inr t \<longrightarrow> fst (bootstrap_main c env w) = Returned"
    by (simp add: startup_then_loop)
  from a b show ?thesis
    by (simp add: bootstrap_getNodes_err fallback_getNodes_err fallback_getNodes_pods_err)
qed

theorem list_error_gives_empty_and_loop_goes_on_witness:
  "endpoints_list cycle_list_error = Inl ''timeout''
   \<and> trace (snd (bootstrap_getNodes default_config cycle_list_error w0)) =
       [Listed_Endpoints ''typesense'', Logged (''failed to list endpoints: timeout'' @ nl)]
   \<and> endpoints_list cycle_pods_error = Inr drained_items
   \<and> ready_addresses default_config drained_items = []
   \<and> pods_list cycle_pods_error = Inl ''forbidden''
   \<and> fallback_getNodes default_config cycle_pods_error w0 =
       ([], w0\<lparr>trace := [Listed_Endpoints ''typesense'',
                            Listed_Pods ''typesense'' ''app.kubernetes.io/name=typesense'',
                            Logged (''failed to list pods: forbidden'' @ nl)]\<rparr>)
   \<and> files (bootstrap_loop default_config ''10.0.0.9:8107:8108'' [cycle_list_error, cycle_ok] w0)
         ''/usr/share/typesense/nodes'' =
       Some ''10.0.0.3:8107:8108,10.0.0.4:8107:8108,10.0.0.6:8107:8108,10.0.0.9:8107:8108''
   \<and> fst (bootstrap_startup default_config env_ok w0) = Inr ''10.0.0.9:8107:8108''
   \<and> fst (bootstrap_main default_config env_ok w0) = Returned"
proof -
  have h1: "endpoints_list cycle_list_error = Inl ''timeout''" by (simp add: cycle_list_error_def)
  have h2: "endpoints_list cycle_pods_error = Inr drained_items" "pods_list cycle_pods_error = Inl ''forbidden''"
    by (simp_all add: cycle_pods_error_def)
  have s: "fst (bootstrap_startup default_config env_ok w0) = Inr ''10.0.0.9:8107:8108''"
    using bootstrap_startup_seeded(1) [OF env_ok_connect env_ok_fields(2) env_ok_fields(1) env_ok_fields(3)]
    by (simp add: host_ip self_entry)
  have ns: "namespace default_config = ''typesense''" "appSelector default_config = ''app.kubernetes.io/name=typesense''"
    by (simp_all add: default_config_def)
  note T1 = list_error_gives_empty_and_loop_goes_on
            [of cycle_list_error "''timeout''" default_config w0 "''10.0.0.9:8107:8108''" "[cycle_ok]" drained_items env_ok]
  note T2 = list_error_gives_empty_and_loop_goes_on
            [of cycle_pods_error "''forbidden''" default_config w0 "''10.0.0.9:8107:8108''" "[]" drained_items env_ok]
  from T1 h1 have a: "trace (snd (bootstrap_getNodes default_config cycle_list_error w0)) =
       [Listed_Endpoints ''typesense'', Logged (''failed to list endpoints: timeout'' @ nl)]"
    by (simp add: ns w0_def)
  from T2 h2 drained_ready have b: "fallback_getNodes default_config cycle_pods_error w0 =
       ([], w0\<lparr>trace := [Listed_Endpoints ''typesense'',
                            Listed_Pods ''typesense'' ''app.kubernetes.io/name=typesense'',
                            Logged (''failed to list pods: forbidden'' @ nl)]\<rparr>)"
    by (simp add: ns w0_def)
  from T1 h1 have "bootstrap_loop default_config ''10.0.0.9:8107:8108'' [cycle_list_error, cycle_ok] w0 =
      bootstrap_cycle default_config ''10.0.0.9:8107:8108'' cycle_ok
        (w0\<lparr>trace := trace w0 @ [Listed_Endpoints (namespace default_config),
                                  Logged (''failed to list endpoints: '' @ ''timeout'' @ nl)]\<rparr>)"
    by simp
  then have c: "files (bootstrap_loop default_config ''10.0.0.9:8107:8108'' [cycle_list_error, cycle_ok] w0)
         ''/usr/share/typesense/nodes'' =
       Some ''10.0.0.3:8107:8108,10.0.0.4:8107:8108,10.0.0.6:8107:8108,10.0.0.9:8107:8108''"
    by (simp add: bootstrap_cycle_written resolved_ok cycle_ok_write nodes_path)
  from T1 s have d: "fst (bootstrap_main default_config env_ok w0) = Returned" by simp
  from h1 h2 drained_ready a b c s d show ?thesis by simp
qed

section \<open>Failed writes\<close>

lemma bootstrap_cycle_write_error:
  assumes "fst (bootstrap_getNodes c cy w) \<noteq> []" "write_file cy = Write_Err e left"
  shows "last (trace (bootstrap_cycle c t cy w)) = Logged (''failed to write nodes file: '' @ e @ nl)"
proof (cases "bootstrap_getNodes c cy w")
  case (Pair nodes w1)
  with assms show ?thesis
    by (simp add: bootstrap_cycle_def Let_def os_WriteFile_def log_Printf_def record_call_def split: option.splits)
qed

lemma fallback_cycle_write_error:
  assumes "write_file cy = Write_Err e left"
  shows "last (trace (fallback_cycle c cy w)) = Logged (''failed to write nodes file: '' @ e @ nl)"
proof (cases "fallback_getNodes c cy w")
  case (Pair nodes w1)
  with assms show ?thesis
    by (simp add: fallback_cycle_def Let_def os_WriteFile_def log_Printf_def record_call_def split: option.splits)
qed

lemma bootstrap_main_fatal:
  "fst (bootstrap_startup c env w) = Inl e \<Longrightarrow>
   bootstrap_main c env w = (e, snd (bootstrap_startup c env w))"
  by (cases "bootstrap_startup c env w") (simp add: bootstrap_main_def)

text \<open>
  C8, amended. A failed write in a pass of either watch loop is logged, as the last
  thing of the pass, and the loop goes on with the next notification; a run that
  got through startup ends only by returning. A failed bootstrap write is logged
  and then ends the run: it is \<open>log.Fatalf\<close>.
\<close>

theorem write_failure_fatal_only_at_bootstrap:
  "(fst (bootstrap_getNodes c cy w) \<noteq> [] \<and> write_file cy = Write_Err e left \<longrightarrow>
      last (trace (bootstrap_cycle c t cy w)) = Logged (''failed to write nodes file: '' @ e @ nl))
   \<and> (write_file cy = Write_Err e left \<longrightarrow>
      last (trace (fallback_cycle c cy w)) = Logged (''failed to write nodes file: '' @ e @ nl))
   \<and> bootstrap_loop c t (cy # cys) w = bootstrap_loop c t cys (bootstrap_cycle c t cy w)
   \<and> fallback_loop c (cy # cys) w = fallback_loop c cys (fallback_cycle c cy w)
   \<and> (fst (bootstrap_startup c env w) = Inr t \<longrightarrow> fst (bootstrap_main c env w) = Returned)
   \<and> (fst (bootstrap_connect c env w) = Inr (cl, wt) \<and> InterfaceAddrs env = Inr addrs \<and>
       LookupEnv env = Some seed \<and> bootstrap_write env = Write_Err e left \<longrightarrow>
        fst (bootstrap_main c env w) = Fatal
        \<and> last (trace (snd (bootstrap_main c env w))) = Logged (''failed to write node list: '' @ e @ nl))"
proof -
  have a: "fst (bootstrap_startup c env w) = Inr t \<longrightarrow> fst (bootstrap_main c env w) = Returned"
    by (simp add: startup_then_loop)
  have b: "fst (bootstrap_connect c env w) = Inr (cl, wt) \<and> InterfaceAddrs env = Inr addrs \<and>
       LookupEnv env = Some seed \<and> bootstrap_write env = Write_Err e left \<longrightarrow>
        fst (bootstrap_main c env w) = Fatal
        \<and> last (trace (snd (bootstrap_main c env w))) = Logged (''failed to write node list: '' @ e @ nl)"
  proof (intro impI, elim conjE)
    assume h: "fst (bootstrap_connect c env w) = Inr (cl, wt)" "InterfaceAddrs env = Inr addrs"
      "LookupEnv env = Some seed" "bootstrap_write env = Write_Err e left"
    let ?w1 = "snd (bootstrap_connect c env w)"
    have s: "bootstrap_startup c env w = bootstrap_seed c env ?w1"
      by (rule bootstrap_startup_connected [OF h(1)])
    have f: "fst (bootstrap_startup c env w) = Inl Fatal"
      by (simp add: s bootstrap_seed_write_error(1) [OF h(2-4)])
    have l: "last (trace (snd (bootstrap_startup c env w))) = Logged (''failed to write node list: '' @ e @ nl)"
      by (simp add: s bootstrap_seed_write_error(2) [OF h(2-4)])
    from f l show "fst (bootstrap_main c env w) = Fatal
        \<and> last (trace (snd (bootstrap_main c env w))) = Logged (''failed to write node list: '' @ e @ nl)"
      by (simp add: bootstrap_main_fatal)
  qed
  from a b show ?thesis
    by (simp add: bootstrap_cycle_write_error fallback_cycle_write_error)
qed

lemma env_read_only_fields:
  "fst (bootstrap_connect c env_read_only w) = Inr (Clientset, Watcher)"
  "LookupEnv env_read_only = Some ''10.0.0.1:8107:8108,10.0.0.2:8107:8108''"
  "InterfaceAddrs env_read_only = Inr host_addrs"
  "bootstrap_write env_read_only = Write_Err ''read-only file system'' None"
  "notifications env_read_only = [cycle_ok]"
  by (simp_all add: env_read_only_def env_ok_def bootstrap_connect_def bootstrap_config_def Let_def)

text \<open>
  C8, as stated, fails at the bootstrap write: on a read-only file system the run
  ends there, fatally, before the one pending notification is looked at.
\<close>

theorem bootstrap_write_failure_counterexample:
  "bootstrap_write env_read_only = Write_Err ''read-only file system'' None
   \<and> notifications env_read_only = [cycle_ok]
   \<and> fst (bootstrap_main default_config env_read_only w0) = Fatal
   \<and> trace (snd (bootstrap_main default_config env_read_only w0)) =
       [Called_NewForConfig (Some Rest_Config), Called_Watch (Some Clientset) ''typesense'',
        Logged ''Bootstrapping cluster with initial node list: 10.0.0.1:8107:8108,10.0.0.2:8107:8108,10.0.0.9:8107:8108'',
        Wrote_File ''/usr/share/typesense/nodes'' ''10.0.0.1:8107:8108,10.0.0.2:8107:8108,10.0.0.9:8107:8108'',
        Logged (''failed to write node list: read-only file system'' @ nl)]"
proof -
  have s: "bootstrap_startup default_config env_read_only w0 =
      bootstrap_seed default_config env_read_only (snd (bootstrap_connect default_config env_read_only w0))"
    by (rule bootstrap_startup_connected [OF env_read_only_fields(1)])
  have c: "trace (snd (bootstrap_connect default_config env_read_only w0)) =
      [Called_NewForConfig (Some Rest_Config), Called_Watch (Some Clientset) ''typesense'']"
    by (simp add: env_read_only_def env_ok_def bootstrap_connect_def bootstrap_config_def Let_def
          record_call_def w0_def default_config_def)
  have f: "fst (bootstrap_startup default_config env_read_only w0) = Inl Fatal"
    by (simp add: s bootstrap_seed_write_error(1) [OF env_read_only_fields(3,2,4)])
  have t: "trace (snd (bootstrap_startup default_config env_read_only w0)) =
       [Called_NewForConfig (Some Rest_Config), Called_Watch (Some Clientset) ''typesense'',
        Logged ''Bootstrapping cluster with initial node list: 10.0.0.1:8107:8108,10.0.0.2:8107:8108,10.0.0.9:8107:8108'',
        Wrote_File ''/usr/share/typesense/nodes'' ''10.0.0.1:8107:8108,10.0.0.2:8107:8108,10.0.0.9:8107:8108'',
        Logged (''failed to write node list: read-only file system'' @ nl)]"
    by (simp add: s bootstrap_seed_write_error(2) [OF env_read_only_fields(3,2,4)] c host_ip self_entry nodes_path)
  from f t show ?thesis
    by (simp add: bootstrap_main_fatal env_read_only_fields)
qed

theorem write_failure_fatal_only_at_bootstrap_witness:
  "fst (bootstrap_getNodes default_config cycle_write_error w0) \<noteq> []
   \<and> write_file cycle_write_error = Write_Err ''read-only file system'' None
   \<and> last (trace (bootstrap_cycle default_config ''10.0.0.9:8107:8108'' cycle_write_error w0)) =
        Logged (''failed to write nodes file: read-only file system'' @ nl)
   \<and> last (trace (fallback_cycle default_config cycle_write_error w0)) =
        Logged (''failed to write nodes file: read-only file system'' @ nl)
   \<and> fst (bootstrap_startup default_config env_ok w0) = Inr ''10.0.0.9:8107:8108''
   \<and> fst (bootstrap_main default_config env_ok w0) = Returned
   \<and> fst (bootstrap_connect default_config env_read_only w0) = Inr (Clientset, Watcher)
   \<and> InterfaceAddrs env_read_only = Inr host_addrs
   \<and> LookupEnv env_read_only = Some ''10.0.0.1:8107:8108,10.0.0.2:8107:8108''
   \<and> bootstrap_write env_read_only = Write_Err ''read-only file system'' None
   \<and> fst (bootstrap_main default_config env_read_only w0) = Fatal"
proof -
  have g: "fst (bootstrap_getNodes default_config cycle_write_error w0) \<noteq> []"
    by (simp add: bootstrap_getNodes_ok [of _ sample_items] cycle_write_error_def sample_ready entry_def)
  have k: "write_file cycle_write_error = Write_Err ''read-only file system'' None"
    by (simp add: cycle_write_error_def)
  have s: "fst (bootstrap_startup default_config env_ok w0) = Inr ''10.0.0.9:8107:8108''"
    using bootstrap_startup_seeded(1) [OF env_ok_connect env_ok_fields(2) env_ok_fields(1) env_ok_fields(3)]
    by (simp add: host_ip self_entry)
  note T1 = write_failure_fatal_only_at_bootstrap
     [of default_config cycle_write_error w0 "''read-only file system''" None "''10.0.0.9:8107:8108''" "[]"
         env_ok Clientset Watcher host_addrs "''10.0.0.1:8107:8108,10.0.0.2:8107:8108''"]
  note T2 = write_failure_fatal_only_at_bootstrap
     [of default_config cycle_write_error w0 "''read-only file system''" None "''10.0.0.9:8107:8108''" "[]"
         env_read_only Clientset Watcher host_addrs "''10.0.0.1:8107:8108,10.0.0.2:8107:8108''"]
  from T1 g k s have a: "last (trace (bootstrap_cycle default_config ''10.0.0.9:8107:8108'' cycle_write_error w0)) =
        Logged (''failed to write nodes file: read-only file system'' @ nl)"
     "last (trace (fallback_cycle default_config cycle_write_error w0)) =
        Logged (''failed to write nodes file: read-only file system'' @ nl)"
     "fst (bootstrap_main default_config env_ok w0) = Returned"
    by simp_all
  from T2 env_read_only_fields
  have b: "fst (bootstrap_main default_config env_read_only w0) = Fatal" by simp
  from g k s a b env_read_only_fields show ?thesis by simp
qed

section \<open>The self address\<close>

lemma To4_length: "To4 ip = Some ip4 \<Longrightarrow> length ip4 = 4"
  by (auto simp: To4_def split: if_splits)

lemma not_loopback_first_byte: "\<not> IsLoopback ip \<Longrightarrow> To4 ip = Some ip4 \<Longrightarrow> ip4 ! 0 \<noteq> 127"
  by (simp add: IsLoopback_def)

lemma IP_String4_chars: "x \<in> set (IP_String4 ip4) \<Longrightarrow> x \<noteq> CHR '':''"
  by (auto simp: IP_String4_def dest: show_nat_chars)

lemma IP_String4_nonempty: "IP_String4 ip4 \<noteq> []"
  by (simp add: IP_String4_def show_nat_nonempty)

lemma first_ipv4_found:
  "first_ipv4 addrs \<noteq> [] \<Longrightarrow>
   \<exists>ip m ip4. IPNet ip m \<in> set addrs \<and> \<not> IsLoopback ip \<and> To4 ip = Some ip4 \<and>
      first_ipv4 addrs = IP_String4 ip4"
proof (induction addrs rule: first_ipv4.induct)
  case 1
  then show ?case by simp
next
  case (2 s addrs)
  then show ?case by auto
next
  case (3 ip m addrs)
  show ?case
  proof (cases "\<not> IsLoopback ip \<and> To4 ip \<noteq> None")
    case True
    then obtain ip4 where "To4 ip = Some ip4" by auto
    with True show ?thesis by auto
  next
    case False
    with 3 have "first_ipv4 addrs \<noteq> []" by (auto split: option.splits)
    with 3 False obtain ip' m' ip4' where "IPNet ip' m' \<in> set addrs" "\<not> IsLoopback ip'" "To4 ip' = Some ip4'"
        "first_ipv4 addrs = IP_String4 ip4'"
      by (auto split: option.splits)
    with False show ?thesis by (auto split: option.splits)
  qed
qed

lemma first_ipv4_none:
  assumes "\<forall>ip m. IPNet ip m \<in> set addrs \<longrightarrow> IsLoopback ip \<or> To4 ip = None"
  shows "first_ipv4 addrs = []"
  using assms
proof (induction addrs)
  case Nil
  show ?case by simp
next
  case (Cons a addrs)
  from Cons.prems have t: "\<forall>ip m. IPNet ip m \<in> set addrs \<longrightarrow> IsLoopback ip \<or> To4 ip = None"
    by auto
  have IH: "first_ipv4 addrs = []" by (rule Cons.IH [OF t])
  show ?case
  proof (cases a)
    case (IPNet ip m)
    with Cons.prems have "IsLoopback ip \<or> To4 ip = None" by auto
    with IH IPNet show ?thesis by (auto split: option.splits)
  next
    case (Other_Addr s)
    with IH show ?thesis by simp
  qed
qed

lemma first_ipv4_empty_only_if:
  assumes "first_ipv4 addrs = []"
  shows "\<forall>ip m. IPNet ip m \<in> set addrs \<longrightarrow> IsLoopback ip \<or> To4 ip = None"
  using assms
proof (induction addrs)
  case Nil
  show ?case by simp
next
  case (Cons a addrs)
  show ?case
  proof (cases a)
    case (Other_Addr s)
    with Cons.prems have "first_ipv4 addrs = []" by simp
    from Cons.IH [OF this]
    have "\<forall>ip m. IPNet ip m \<in> set addrs \<longrightarrow> IsLoopback ip \<or> To4 ip = None" .
    with Other_Addr show ?thesis by auto
  next
    case (IPNet ip m)
    have h: "IsLoopback ip \<or> To4 ip = None"
    proof (rule ccontr)
      assume "\<not> (IsLoopback ip \<or> To4 ip = None)"
      then obtain ip4 where "\<not> IsLoopback ip" "To4 ip = Some ip4" by auto
      with Cons.prems IPNet have "IP_String4 ip4 = []" by simp
      then show False by (simp add: IP_String4_nonempty)
    qed
    with Cons.prems IPNet have "first_ipv4 addrs = []" by (auto split: option.splits)
    from Cons.IH [OF this]
    have "\<forall>ip m. IPNet ip m \<in> set addrs \<longrightarrow> IsLoopback ip \<or> To4 ip = None" .
    with h IPNet show ?thesis by auto
  qed
qed

text \<open>
  C2, amended. \<open>getCurrentIP\<close> is fatal only when \<open>net.InterfaceAddrs\<close> fails.
  Otherwise it returns, with no effect, either the dotted decimal form of an
  interface address that is an \<open>*net.IPNet\<close>, IPv4 and not loopback (its first byte
  is not 127; the string has no colon), or the empty string, and the empty string
  exactly when no interface address qualifies. \<open>main\<close> does not test the result:
  with the empty string the self entry is \<open>:8107:8108\<close>, startup goes on, and in
  bootstrap mode that entry is written after the seed.
\<close>

theorem getCurrentIP_result:
  "getCurrentIP (Inl err) w = (Inl Fatal, log_Printf (''error resolving local addresses: '' @ err @ nl) w)
   \<and> getCurrentIP (Inr addrs) w = (Inr (first_ipv4 addrs), w)
   \<and> (first_ipv4 addrs \<noteq> [] \<longrightarrow>
        (\<exists>ip m ip4. IPNet ip m \<in> set addrs \<and> \<not> IsLoopback ip \<and> To4 ip = Some ip4 \<and> length ip4 = 4 \<and>
           ip4 ! 0 \<noteq> 127 \<and> first_ipv4 addrs = IP_String4 ip4)
        \<and> CHR '':'' \<notin> set (first_ipv4 addrs))
   \<and> (first_ipv4 addrs = [] \<longleftrightarrow> (\<forall>ip m. IPNet ip m \<in> set addrs \<longrightarrow> IsLoopback ip \<or> To4 ip = None))
   \<and> (InterfaceAddrs env = Inr addrs \<and> first_ipv4 addrs = [] \<and> LookupEnv env = None \<longrightarrow>
        bootstrap_seed c env w = (Inr '':8107:8108'', w))
   \<and> (InterfaceAddrs env = Inr addrs \<and> first_ipv4 addrs = [] \<and> LookupEnv env = Some seed \<and>
       bootstrap_write env = Write_Ok \<longrightarrow>
        fst (bootstrap_seed c env w) = Inr '':8107:8108''
        \<and> files (snd (bootstrap_seed c env w)) (nodesFile c) = Some (seed @ '',:8107:8108''))"
proof -
  have a: "first_ipv4 addrs \<noteq> [] \<longrightarrow>
        (\<exists>ip m ip4. IPNet ip m \<in> set addrs \<and> \<not> IsLoopback ip \<and> To4 ip = Some ip4 \<and> length ip4 = 4 \<and>
           ip4 ! 0 \<noteq> 127 \<and> first_ipv4 addrs = IP_String4 ip4)
        \<and> CHR '':'' \<notin> set (first_ipv4 addrs)"
  proof
    assume "first_ipv4 addrs \<noteq> []"
    from first_ipv4_found [OF this] obtain ip m ip4 where
      f: "IPNet ip m \<in> set addrs" "\<not> IsLoopback ip" "To4 ip = Some ip4" "first_ipv4 addrs = IP_String4 ip4"
      by blast
    from f(2,3) have "ip4 ! 0 \<noteq> 127" by (rule not_loopback_first_byte)
    moreover from f(3) have "length ip4 = 4" by (rule To4_length)
    moreover have "CHR '':'' \<notin> set (first_ipv4 addrs)"
      using IP_String4_chars [of "CHR '':''" ip4] f(4) by auto
    ultimately show "(\<exists>ip m ip4. IPNet ip m \<in> set addrs \<and> \<not> IsLoopback ip \<and> To4 ip = Some ip4 \<and> length ip4 = 4 \<and>
           ip4 ! 0 \<noteq> 127 \<and> first_ipv4 addrs = IP_String4 ip4)
        \<and> CHR '':'' \<notin> set (first_ipv4 addrs)"
      using f by blast
  qed
  have b: "first_ipv4 addrs = [] \<longleftrightarrow> (\<forall>ip m. IPNet ip m \<in> set addrs \<longrightarrow> IsLoopback ip \<or> To4 ip = None)"
  proof
    assume e: "first_ipv4 addrs = []"
    show "\<forall>ip m. IPNet ip m \<in> set addrs \<longrightarrow> IsLoopback ip \<or> To4 ip = None"
      using e by (rule first_ipv4_empty_only_if)
  next
    assume "\<forall>ip m. IPNet ip m \<in> set addrs \<longrightarrow> IsLoopback ip \<or> To4 ip = None"
    then show "first_ipv4 addrs = []" by (rule first_ipv4_none)
  qed
  have e: "Sprintf_node [] 8107 8108 = '':8107:8108''"
    by (simp add: Sprintf_node_def show_8107 show_8108)
  have c: "InterfaceAddrs env = Inr addrs \<and> first_ipv4 addrs = [] \<and> LookupEnv env = None \<longrightarrow>
        bootstrap_seed c env w = (Inr '':8107:8108'', w)"
    using e by (auto simp: bootstrap_seed_absent)
  have d: "InterfaceAddrs env = Inr addrs \<and> first_ipv4 addrs = [] \<and> LookupEnv env = Some seed \<and>
       bootstrap_write env = Write_Ok \<longrightarrow>
        fst (bootstrap_seed c env w) = Inr '':8107:8108''
        \<and> files (snd (bootstrap_seed c env w)) (nodesFile c) = Some (seed @ '',:8107:8108'')"
    using e by (auto simp: bootstrap_seed_ok)
  have g: "getCurrentIP (Inl err) w = (Inl Fatal, log_Printf (''error resolving local addresses: '' @ err @ nl) w)
   \<and> getCurrentIP (Inr addrs) w = (Inr (first_ipv4 addrs), w)"
    by (simp add: getCurrentIP_def)
  from a b c d g show ?thesis by blast
qed

lemma loopback_only: "first_ipv4 loopback_only_addrs = []"
  by (simp add: loopback_only_addrs_def To4_def IsLoopback_def IPv6loopback_def)

lemma env_no_ipv4_fields:
  "fst (bootstrap_connect c env_no_ipv4 w) = Inr (Clientset, Watcher)"
  "LookupEnv env_no_ipv4 = Some ''10.0.0.1:8107:8108,10.0.0.2:8107:8108''"
  "InterfaceAddrs env_no_ipv4 = Inr loopback_only_addrs"
  "bootstrap_write env_no_ipv4 = Write_Ok"
  "notifications env_no_ipv4 = [cycle_ok]"
  by (simp_all add: env_no_ipv4_def env_ok_def bootstrap_connect_def bootstrap_config_def Let_def)

text \<open>
  C2, as stated, fails: on a host whose only addresses are loopback ones,
  \<open>getCurrentIP\<close> returns the empty string, startup succeeds, the file gets the
  entry \<open>:8107:8108\<close>, and the run goes into the watch loop.
\<close>

theorem no_self_address_not_fatal_counterexample:
  "getCurrentIP (Inr loopback_only_addrs) w0 = (Inr [], w0)
   \<and> InterfaceAddrs env_no_ipv4 = Inr loopback_only_addrs
   \<and> fst (bootstrap_startup default_config env_no_ipv4 w0) = Inr '':8107:8108''
   \<and> files (snd (bootstrap_startup default_config env_no_ipv4 w0)) ''/usr/share/typesense/nodes'' =
        Some ''10.0.0.1:8107:8108,10.0.0.2:8107:8108,:8107:8108''
   \<and> fst (bootstrap_main default_config env_no_ipv4 w0) = Returned"
proof -
  have e: "Sprintf_node [] 8107 8108 = '':8107:8108''"
    by (simp add: Sprintf_node_def show_8107 show_8108)
  note s = bootstrap_startup_seeded [OF env_no_ipv4_fields(1) env_no_ipv4_fields(3) env_no_ipv4_fields(2) env_no_ipv4_fields(4),
      where c = default_config and w = w0]
  have t: "fst (bootstrap_startup default_config env_no_ipv4 w0) = Inr '':8107:8108''"
    using s(1) by (simp add: loopback_only e)
  have f: "files (snd (bootstrap_startup default_config env_no_ipv4 w0)) ''/usr/share/typesense/nodes'' =
        Some ''10.0.0.1:8107:8108,10.0.0.2:8107:8108,:8107:8108''"
    using s(3) by (simp add: loopback_only e nodes_path)
  from t have "fst (bootstrap_main default_config env_no_ipv4 w0) = Returned"
    by (simp add: startup_then_loop)
  with t f show ?thesis by (simp add: getCurrentIP_def loopback_only env_no_ipv4_fields)
qed

theorem getCurrentIP_result_witness:
  "first_ipv4 host_addrs \<noteq> [] \<and> first_ipv4 host_addrs = ''10.0.0.9''
   \<and> CHR '':'' \<notin> set (first_ipv4 host_addrs)
   \<and> InterfaceAddrs (env_no_ipv4\<lparr>LookupEnv := None\<rparr>) = Inr loopback_only_addrs
   \<and> first_ipv4 loopback_only_addrs = []
   \<and> LookupEnv (env_no_ipv4\<lparr>LookupEnv := None\<rparr>) = None
   \<and> bootstrap_seed default_config (env_no_ipv4\<lparr>LookupEnv := None\<rparr>) w0 = (Inr '':8107:8108'', w0)
   \<and> InterfaceAddrs env_no_ipv4 = Inr loopback_only_addrs
   \<and> LookupEnv env_no_ipv4 = Some ''10.0.0.1:8107:8108,10.0.0.2:8107:8108''
   \<and> bootstrap_write env_no_ipv4 = Write_Ok
   \<and> files (snd (bootstrap_seed default_config env_no_ipv4 w0)) ''/usr/share/typesense/nodes'' =
        Some ''10.0.0.1:8107:8108,10.0.0.2:8107:8108,:8107:8108''"
proof -
  note T1 = getCurrentIP_result [of "''x''" w0 host_addrs env_ok default_config "''y''"]
  note T2 = getCurrentIP_result [of "''x''" w0 loopback_only_addrs "env_no_ipv4\<lparr>LookupEnv := None\<rparr>" default_config "''y''"]
  note T3 = getCurrentIP_result [of "''x''" w0 loopback_only_addrs env_no_ipv4 default_config
               "''10.0.0.1:8107:8108,10.0.0.2:8107:8108''"]
  have i: "InterfaceAddrs (env_no_ipv4\<lparr>LookupEnv := None\<rparr>) = Inr loopback_only_addrs"
    by (simp add: env_no_ipv4_fields)
  from T1 have a: "CHR '':'' \<notin> set (first_ipv4 host_addrs)" by (simp add: host_ip)
  from T2 i have b: "bootstrap_seed default_config (env_no_ipv4\<lparr>LookupEnv := None\<rparr>) w0 = (Inr '':8107:8108'', w0)"
    by (simp add: loopback_only)
  from T3 have c: "files (snd (bootstrap_seed default_config env_no_ipv4 w0)) ''/usr/share/typesense/nodes'' =
        Some ''10.0.0.1:8107:8108,10.0.0.2:8107:8108,:8107:8108''"
    by (simp add: loopback_only env_no_ipv4_fields nodes_path)
  from a b c i show ?thesis by (simp add: host_ip loopback_only env_no_ipv4_fields)
qed

section \<open>The ports of the self entry, and startup failures\<close>

lemma show_9107: "show_int 9107 = ''9107''"
  by (simp add: show_int_def show_nat.simps digit_char_def)

lemma show_9108: "show_int 9108 = ''9108''"
  by (simp add: show_int_def show_nat.simps digit_char_def)

lemma custom_ports: "peerPort custom_ports_config = 9107" "apiPort custom_ports_config = 9108"
  "nodesFile custom_ports_config = ''/usr/share/typesense/nodes''" "service custom_ports_config = ''ts''"
  by (simp_all add: custom_ports_config_def default_config_def)

lemma custom_ready:
  "ready_addresses custom_ports_config sample_items =
     [\<lparr>IP = ''10.0.0.3''\<rparr>, \<lparr>IP = ''10.0.0.4''\<rparr>, \<lparr>IP = ''10.0.0.6''\<rparr>]"
  by (simp add: ready_addresses_def custom_ports sample_items_def)

text \<open>
  C5 fails on the code. With the flags \<open>-peer-port 9107 -api-port 9108\<close> the
  resolver's entries carry 9107 and 9108, and the self entry, built from the
  literals 8107 and 8108, does not: both written lists end in \<open>10.0.0.9:8107:8108\<close>.
\<close>

theorem self_entry_ignores_port_flags:
  "peerPort custom_ports_config = 9107 \<and> apiPort custom_ports_config = 9108
   \<and> fst (bootstrap_getNodes custom_ports_config cycle_ok w0) =
        ''10.0.0.3:9107:9108,10.0.0.4:9107:9108,10.0.0.6:9107:9108''
   \<and> fst (bootstrap_startup custom_ports_config env_ok w0) = Inr ''10.0.0.9:8107:8108''
   \<and> writes_of (new_actions w0 (snd (bootstrap_main custom_ports_config env_ok w0))) =
        [(''/usr/share/typesense/nodes'', ''10.0.0.1:8107:8108,10.0.0.2:8107:8108,10.0.0.9:8107:8108''),
         (''/usr/share/typesense/nodes'',
          ''10.0.0.3:9107:9108,10.0.0.4:9107:9108,10.0.0.6:9107:9108,10.0.0.9:8107:8108'')]"
proof -
  have g: "fst (bootstrap_getNodes custom_ports_config cycle_ok w0) =
        ''10.0.0.3:9107:9108,10.0.0.4:9107:9108,10.0.0.6:9107:9108''"
    by (simp add: bootstrap_getNodes_ok [of _ sample_items] cycle_ok_def custom_ready entry_def
          custom_ports show_9107 show_9108)
  note s = bootstrap_startup_seeded [OF env_ok_connect env_ok_fields(2) env_ok_fields(1) env_ok_fields(3),
      where c = custom_ports_config and w = w0]
  have t: "fst (bootstrap_startup custom_ports_config env_ok w0) = Inr ''10.0.0.9:8107:8108''"
    using s(1) by (simp add: host_ip self_entry)
  have e: "\<exists>acts. trace (snd (bootstrap_startup custom_ports_config env_ok w0)) = trace w0 @ acts"
    by (simp add: w0_def)
  have n: "notifications env_ok = [cycle_ok]" by (rule env_ok_fields(4))
  have w: "writes_of (new_actions w0 (snd (bootstrap_startup custom_ports_config env_ok w0))) =
      [(''/usr/share/typesense/nodes'', ''10.0.0.1:8107:8108,10.0.0.2:8107:8108,10.0.0.9:8107:8108'')]"
    using s(2) by (simp add: custom_ports host_ip self_entry)
  have m: "writes_of (new_actions w0 (snd (bootstrap_main custom_ports_config env_ok w0))) =
        [(''/usr/share/typesense/nodes'', ''10.0.0.1:8107:8108,10.0.0.2:8107:8108,10.0.0.9:8107:8108''),
         (''/usr/share/typesense/nodes'',
          ''10.0.0.3:9107:9108,10.0.0.4:9107:9108,10.0.0.6:9107:9108,10.0.0.9:8107:8108'')]"
    unfolding bootstrap_main_writes [OF t e] w n by (simp add: g custom_ports)
  from g t m show ?thesis by (simp add: custom_ports)
qed

lemma env_fail_fields:
  "kubeconfig_missing env_config_fails" "InClusterConfig env_config_fails = Inl ''no service account''"
  "kubeconfig_missing env_client_fails" "InClusterConfig env_client_fails = Inr Rest_Config"
  "NewForConfig env_client_fails = Inl ''invalid host''"
  "kubeconfig_missing env_watch_fails" "InClusterConfig env_watch_fails = Inr Rest_Config"
  "NewForConfig env_watch_fails = Inr Clientset" "Watch env_watch_fails = Inl ''connection refused''"
  by (simp_all add: env_config_fails_def env_client_fails_def env_watch_fails_def env_ok_def)

text \<open>
  C3 fails on \<open>main.go\<close>. After each of the three startup failures \<open>main.go\<close> logs
  and goes on to the next statement, which uses the \<open>nil\<close> handle: the next thing
  in the trace is that call, and the run does not end by a fatal log. The second
  file, on the same inputs, stops at the log line.
\<close>

theorem fallback_main_goes_on_after_startup_failure:
  "fst (fallback_main default_config env_config_fails w0) = Panicked
   \<and> trace (snd (fallback_main default_config env_config_fails w0)) =
       [Logged (''failed to build local config: no service account'' @ nl), Called_NewForConfig None]
   \<and> fst (fallback_main default_config env_client_fails w0) = Panicked
   \<and> trace (snd (fallback_main default_config env_client_fails w0)) =
       [Called_NewForConfig (Some Rest_Config),
        Logged (''failed to create kubernetes client: invalid host'' @ nl),
        Called_Watch None ''typesense'']
   \<and> fst (fallback_main default_config env_watch_fails w0) = Panicked
   \<and> trace (snd (fallback_main default_config env_watch_fails w0)) =
       [Called_NewForConfig (Some Rest_Config), Called_Watch (Some Clientset) ''typesense'',
        Logged (''failed to create endpoints watcher: connection refused'' @ nl),
        Called_ResultChan None]
   \<and> bootstrap_main default_config env_config_fails w0 =
       (Fatal, w0\<lparr>trace := [Logged (''failed to build local config: no service account'' @ nl)]\<rparr>)
   \<and> bootstrap_main default_config env_client_fails w0 =
       (Fatal, w0\<lparr>trace := [Called_NewForConfig (Some Rest_Config),
                              Logged (''failed to create kubernetes client: invalid host'' @ nl)]\<rparr>)
   \<and> bootstrap_main default_config env_watch_fails w0 =
       (Fatal, w0\<lparr>trace := [Called_NewForConfig (Some Rest_Config), Called_Watch (Some Clientset) ''typesense'',
                              Logged (''failed to create endpoints watcher: connection refused'' @ nl)]\<rparr>)"
proof -
  have ns: "namespace default_config = ''typesense''" by (simp add: default_config_def)
  have a: "fallback_main default_config env_config_fails w0 =
      (Panicked, w0\<lparr>trace := [Logged (''failed to build local config: no service account'' @ nl), Called_NewForConfig None]\<rparr>)"
    by (simp add: fallback_main_def fallback_config_def fallback_clients_def env_fail_fields
          Let_def log_Printf_def record_call_def w0_def)
  have b: "fallback_main default_config env_client_fails w0 =
      (Panicked, w0\<lparr>trace := [Called_NewForConfig (Some Rest_Config),
        Logged (''failed to create kubernetes client: invalid host'' @ nl),
        Called_Watch None ''typesense'']\<rparr>)"
    by (simp add: fallback_main_def fallback_config_def fallback_clients_def fallback_watcher_def
          env_fail_fields Let_def log_Printf_def record_call_def w0_def ns)
  have c: "fallback_main default_config env_watch_fails w0 =
      (Panicked, w0\<lparr>trace := [Called_NewForConfig (Some Rest_Config), Called_Watch (Some Clientset) ''typesense'',
        Logged (''failed to create endpoints watcher: connection refused'' @ nl),
        Called_ResultChan None]\<rparr>)"
    by (simp add: fallback_main_def fallback_config_def fallback_clients_def fallback_watcher_def
          env_fail_fields Let_def log_Printf_def record_call_def w0_def ns)
  have d: "bootstrap_main default_config env_config_fails w0 =
       (Fatal, w0\<lparr>trace := [Logged (''failed to build local config: no service account'' @ nl)]\<rparr>)"
    by (simp add: bootstrap_main_def bootstrap_startup_def bootstrap_connect_def bootstrap_config_def
          env_fail_fields Let_def log_Printf_def record_call_def w0_def ns)
  have e: "bootstrap_main default_config env_client_fails w0 =
       (Fatal, w0\<lparr>trace := [Called_NewForConfig (Some Rest_Config),
                              Logged (''failed to create kubernetes client: invalid host'' @ nl)]\<rparr>)"
    by (simp add: bootstrap_main_def bootstrap_startup_def bootstrap_connect_def bootstrap_config_def
          env_fail_fields Let_def log_Printf_def record_call_def w0_def ns)
  have f: "bootstrap_main default_config env_watch_fails w0 =
       (Fatal, w0\<lparr>trace := [Called_NewForConfig (Some Rest_Config), Called_Watch (Some Clientset) ''typesense'',
                              Logged (''failed to create endpoints watcher: connection refused'' @ nl)]\<rparr>)"
    by (simp add: bootstrap_main_def bootstrap_startup_def bootstrap_connect_def bootstrap_config_def
          env_fail_fields Let_def log_Printf_def record_call_def w0_def ns)
  from a b c d e f show ?thesis by (simp add: w0_def)
qed

text \<open>In the second file each startup failure ends the run, whatever the inputs.\<close>

lemma bootstrap_startup_failure_is_fatal:
  "(kubeconfig_missing env \<and> InClusterConfig env = Inl err \<longrightarrow>
      bootstrap_main c env w = (Fatal, log_Printf (''failed to build local config: '' @ err @ nl) w))
   \<and> (\<not> kubeconfig_missing env \<and> BuildConfigFromFlags env = Inl err \<longrightarrow>
      bootstrap_main c env w = (Fatal, log_Printf (''failed to build in-cluster config: '' @ err @ nl) w))
   \<and> (bootstrap_config env w = (Inr cfg, w) \<and> NewForConfig env = Inl err \<longrightarrow>
      bootstrap_main c env w =
        (Fatal, log_Printf (''failed to create kubernetes client: '' @ err @ nl)
                  (record_call (Called_NewForConfig (Some cfg)) w)))
   \<and> (bootstrap_config env w = (Inr cfg, w) \<and> NewForConfig env = Inr cl \<and> Watch env = Inl err \<longrightarrow>
      bootstrap_main c env w =
        (Fatal, log_Printf (''failed to create endpoints watcher: '' @ err @ nl)
                  (record_call (Called_Watch (Some cl) (namespace c))
                     (record_call (Called_NewForConfig (Some cfg)) w))))"
proof -
  have a: "kubeconfig_missing env \<and> InClusterConfig env = Inl err \<longrightarrow>
      bootstrap_main c env w = (Fatal, log_Printf (''failed to build local config: '' @ err @ nl) w)"
    by (simp add: bootstrap_main_def bootstrap_startup_def bootstrap_connect_def bootstrap_config_def)
  have b: "\<not> kubeconfig_missing env \<and> BuildConfigFromFlags env = Inl err \<longrightarrow>
      bootstrap_main c env w = (Fatal, log_Printf (''failed to build in-cluster config: '' @ err @ nl) w)"
    by (simp add: bootstrap_main_def bootstrap_startup_def bootstrap_connect_def bootstrap_config_def)
  have c: "bootstrap_config env w = (Inr cfg, w) \<and> NewForConfig env = Inl err \<longrightarrow>
      bootstrap_main c env w =
        (Fatal, log_Printf (''failed to create kubernetes client: '' @ err @ nl)
                  (record_call (Called_NewForConfig (Some cfg)) w))"
    by (simp add: bootstrap_main_def bootstrap_startup_def bootstrap_connect_def Let_def)
  have d: "bootstrap_config env w = (Inr cfg, w) \<and> NewForConfig env = Inr cl \<and> Watch env = Inl err \<longrightarrow>
      bootstrap_main c env w =
        (Fatal, log_Printf (''failed to create endpoints watcher: '' @ err @ nl)
                  (record_call (Called_Watch (Some cl) (namespace c))
                     (record_call (Called_NewForConfig (Some cfg)) w)))"
    by (simp add: bootstrap_main_def bootstrap_startup_def bootstrap_connect_def Let_def)
  from a b c d show ?thesis by blast
qed

end
